theory Spec2Isabelle
  imports Main "HOL-Library.AList" "HOL-Library.Word"
begin

section \<open>Python values and built-ins used by \<^verbatim>\<open>scripts/render_resume.py\<close>\<close>

text \<open>
  Text is modelled as \<open>string\<close> (a list of characters). All characters the script
  treats specially (the twelve LaTeX specials, the date separator, digits, ASCII white
  space) are ASCII, so the model reads a \<open>string\<close> as ASCII text.

  The backslash and the single quote cannot be written inside a string literal; they are
  named here.
\<close>

abbreviation bs :: char where
  "bs \<equiv> CHR 0x5C"

abbreviation sq :: char where
  "sq \<equiv> CHR 0x27"

text \<open>
  A value that \<^verbatim>\<open>json.load\<close> can return. A Python \<^verbatim>\<open>dict\<close> keeps insertion order, so
  an object is an association list (with distinct keys, as \<^verbatim>\<open>json.load\<close> builds it);
  a float is its IEEE-754 binary64 bit pattern.
\<close>

datatype json =
    JNull
  | JBool bool
  | JInt int
  | JFloat "64 word"
  | JStr string
  | JArr "json list"
  | JObj "(string \<times> json) list"

text \<open>The exceptions the script raises, catches or lets escape.\<close>

datatype exn =
    ValueError
  | IndexError
  | KeyError
  | TypeError
  | JSONDecodeError string
  | TemplateError string
  | OSError string
  | UnicodeEncodeError
  | OtherError string

text \<open>
  What ends a call early: an exception that nothing caught, or \<^verbatim>\<open>sys.exit(n)\<close>.
\<close>

datatype abort = Uncaught exn | Exit nat

text \<open>
  Python truth value (\<^verbatim>\<open>bool(v)\<close>, \<^verbatim>\<open>not v\<close>, \<^verbatim>\<open>filter(None, ...)\<close>): \<^verbatim>\<open>None\<close>,
  \<^verbatim>\<open>False\<close>, zero, and every empty string, list and dict are falsy. A float is zero when
  all bits but the sign bit are clear.
\<close>

fun truthy :: "json \<Rightarrow> bool" where
  "truthy JNull = False"
| "truthy (JBool b) = b"
| "truthy (JInt i) = (i \<noteq> 0)"
| "truthy (JFloat w) = (take_bit 63 w \<noteq> 0)"
| "truthy (JStr s) = (s \<noteq> [])"
| "truthy (JArr xs) = (xs \<noteq> [])"
| "truthy (JObj kvs) = (kvs \<noteq> [])"

text \<open>
  \<^verbatim>\<open>s.replace(old, new)\<close>: every non-overlapping occurrence of \<open>old\<close>, scanning from
  the left; an empty \<open>old\<close> matches between all characters and at both ends.
\<close>

function py_replace :: "string \<Rightarrow> string \<Rightarrow> string \<Rightarrow> string" where
  "py_replace [] old new = (if old = [] then new else [])"
| "py_replace (c # cs) old new =
     (if old = [] then new @ c # py_replace cs old new
      else if take (length old) (c # cs) = old
        then new @ py_replace (drop (length old) (c # cs)) old new
      else c # py_replace cs old new)"
  by pat_completeness auto
termination
  by (relation "measure (\<lambda>(s, old, new). length s)") auto

text \<open>\<^verbatim>\<open>sep.join(xs)\<close>.\<close>

fun py_join :: "string \<Rightarrow> string list \<Rightarrow> string" where
  "py_join sep [] = []"
| "py_join sep [x] = x"
| "py_join sep (x # y # ys) = x @ sep @ py_join sep (y # ys)"

text \<open>
  Exceptions as values: \<open>Inl e\<close> is a raised exception, \<open>Inr v\<close> a returned value;
  \<open>and_then\<close> runs the rest of a function body only when the first part returned.
\<close>

definition and_then :: "'e + 'a \<Rightarrow> ('a \<Rightarrow> 'e + 'b) \<Rightarrow> 'e + 'b" where
  "and_then r f = (case r of Inl e \<Rightarrow> Inl e | Inr v \<Rightarrow> f v)"

text \<open>
  \<^verbatim>\<open>s.split(sep)\<close> with an explicit separator: the pieces between non-overlapping
  occurrences of \<open>sep\<close>, scanning from the left; \<open>cur\<close> is the piece being read. An
  empty separator raises \<^verbatim>\<open>ValueError\<close>.
\<close>

function split_from :: "string \<Rightarrow> string \<Rightarrow> string \<Rightarrow> string list" where
  "split_from sep cur [] = [cur]"
| "split_from sep cur (c # cs) =
     (if sep \<noteq> [] \<and> take (length sep) (c # cs) = sep
      then cur # split_from sep [] (drop (length sep) (c # cs))
      else split_from sep (cur @ [c]) cs)"
  by pat_completeness auto
termination
  by (relation "measure (\<lambda>(sep, cur, rest). length rest)") auto

definition py_split :: "string \<Rightarrow> string \<Rightarrow> exn + string list" where
  "py_split s sep = (if sep = [] then Inl ValueError else Inr (split_from sep [] s))"

text \<open>
  \<^verbatim>\<open>xs[i]\<close> on a list: a negative index counts from the end, and an index outside
  \<open>-len(xs) .. len(xs) - 1\<close> raises \<^verbatim>\<open>IndexError\<close>.
\<close>

definition py_index :: "'a list \<Rightarrow> int \<Rightarrow> exn + 'a" where
  "py_index xs i =
     (if 0 \<le> i \<and> i < int (length xs) then Inr (xs ! nat i)
      else if i < 0 \<and> - int (length xs) \<le> i then Inr (xs ! nat (int (length xs) + i))
      else Inl IndexError)"

text \<open>
  \<^verbatim>\<open>int(s)\<close> on ASCII text, base ten: surrounding white space is dropped, one sign is
  allowed, then come decimal digits, where single underscores may stand between two
  digits. Anything else raises \<^verbatim>\<open>ValueError\<close>. (CPython's configurable limit on the
  number of digits, 4300 by default, is outside the model.)
\<close>

definition is_space :: "char \<Rightarrow> bool" where
  "is_space c = (c \<in> set [CHR 0x09, CHR 0x0A, CHR 0x0B, CHR 0x0C, CHR 0x0D, CHR 0x20])"

definition is_digit :: "char \<Rightarrow> bool" where
  "is_digit c = (c \<in> set ''0123456789'')"

definition digit_val :: "char \<Rightarrow> nat" where
  "digit_val c = of_char c - 48"

definition py_strip :: "string \<Rightarrow> string" where
  "py_strip s = rev (dropWhile is_space (rev (dropWhile is_space s)))"

fun int_body :: "string \<Rightarrow> bool" where
  "int_body [] = False"
| "int_body [c] = is_digit c"
| "int_body (c # d # cs) =
     (is_digit c \<and> (if d = CHR ''_'' then int_body cs else int_body (d # cs)))"

definition digits_value :: "string \<Rightarrow> nat" where
  "digits_value ds = foldl (\<lambda>acc c. 10 * acc + digit_val c) 0 ds"

definition py_int :: "string \<Rightarrow> exn + int" where
  "py_int s =
     (let t = py_strip s;
          neg = (t \<noteq> [] \<and> hd t = CHR ''-'');
          body = (if t \<noteq> [] \<and> (hd t = CHR ''-'' \<or> hd t = CHR ''+'') then tl t else t)
      in if int_body body
         then Inr ((if neg then - 1 else 1) * int (digits_value (filter (\<lambda>c. c \<noteq> CHR ''_'') body)))
         else Inl ValueError)"

text \<open>\<^verbatim>\<open>str(i)\<close> for an integer: its decimal digits, with a minus sign when negative.\<close>

fun str_nat :: "nat \<Rightarrow> string" where
  "str_nat n =
     (if n < 10 then [''0123456789'' ! n]
      else str_nat (n div 10) @ [''0123456789'' ! (n mod 10)])"

definition str_int :: "int \<Rightarrow> string" where
  "str_int i = (if i < 0 then CHR ''-'' # str_nat (nat (- i)) else str_nat (nat i))"

section \<open>\<^verbatim>\<open>latex_escape\<close>\<close>

text \<open>The \<^verbatim>\<open>replacements\<close> table of \<^verbatim>\<open>latex_escape\<close>, in source order.\<close>

definition replacements :: "(string \<times> string) list" where
  "replacements =
     [([bs], bs # ''textbackslash{}''),
      (''&'', bs # ''&''),
      (''%'', bs # ''%''),
      (''$'', bs # ''$''),
      (''#'', bs # ''#''),
      (''_'', bs # ''_''),
      (''{'', bs # ''{''),
      (''}'', bs # ''}''),
      (''~'', bs # ''textasciitilde{}''),
      (''^'', bs # ''textasciicircum{}''),
      (''<'', bs # ''textless{}''),
      (''>'', bs # ''textgreater{}'')]"

text \<open>
  \<^verbatim>\<open>latex_escape(text)\<close>. The argument is \<open>None\<close> for an absent value (Python's
  \<^verbatim>\<open>None\<close>); \<^verbatim>\<open>not text\<close> holds for it and for the empty string. The loop applies
  one whole-string replacement per table row, each to the result of the previous one.
\<close>

definition latex_escape :: "string option \<Rightarrow> string" where
  "latex_escape text =
     (case text of
        None \<Rightarrow> []
      | Some t \<Rightarrow>
          if t = [] then []
          else foldl (\<lambda>result (char, escaped). py_replace result char escaped) t replacements)"

section \<open>\<^verbatim>\<open>format_duration\<close>\<close>

definition months :: "string list" where
  "months =
     [''Jan'', ''Feb'', ''Mar'', ''Apr'', ''May'', ''Jun'',
      ''Jul'', ''Aug'', ''Sep'', ''Oct'', ''Nov'', ''Dec'']"

text \<open>
  The inner \<^verbatim>\<open>format_date(date_str)\<close>: split at \<^verbatim>\<open>-\<close>, read the first two pieces
  as integers, index the month table with \<^verbatim>\<open>month - 1\<close>. Every step can raise.
\<close>

definition format_date :: "string \<Rightarrow> exn + string" where
  "format_date date_str =
     and_then (py_split date_str ''-'') (\<lambda>parts.
     and_then (py_index parts 0) (\<lambda>p0.
     and_then (py_int p0) (\<lambda>year.
     and_then (py_index parts 1) (\<lambda>p1.
     and_then (py_int p1) (\<lambda>month.
     and_then (py_index months (month - 1)) (\<lambda>name.
     Inr (name @ '' '' @ str_int year)))))))"

text \<open>
  \<^verbatim>\<open>format_duration(start_date, end_date=None)\<close>. The end date is formatted only when
  it is truthy: \<^verbatim>\<open>None\<close> and the empty string both give \<^verbatim>\<open>Present\<close>.
\<close>

definition format_duration :: "string \<Rightarrow> string option \<Rightarrow> exn + string" where
  "format_duration start_date end_date =
     and_then (format_date start_date) (\<lambda>start.
     and_then (case end_date of
                 None \<Rightarrow> Inr ''Present''
               | Some e \<Rightarrow> if e \<noteq> [] then format_date e else Inr ''Present'') (\<lambda>end.
     Inr (start @ '' -- '' @ end)))"

section \<open>Paths, files and the console\<close>

text \<open>
  A \<^verbatim>\<open>pathlib.Path\<close> on POSIX: whether it starts at the root, and its components.
  Parsing a string drops empty and \<^verbatim>\<open>.\<close> components; \<^verbatim>\<open>p / s\<close> appends the
  components of \<open>s\<close>, or is \<open>s\<close> itself when \<open>s\<close> is absolute. \<^verbatim>\<open>p.name\<close> is the
  last component (empty when there is none), \<^verbatim>\<open>p.parent\<close> drops it.
\<close>

datatype path = Path (is_absolute: bool) (parts: "string list")

definition path_of_string :: "string \<Rightarrow> path" where
  "path_of_string s =
     Path (s \<noteq> [] \<and> hd s = CHR ''/'')
          (filter (\<lambda>c. c \<noteq> [] \<and> c \<noteq> ''.'') (split_from ''/'' [] s))"

definition path_join :: "path \<Rightarrow> string \<Rightarrow> path" where
  "path_join p s =
     (let q = path_of_string s
      in if is_absolute q then q else Path (is_absolute p) (parts p @ parts q))"

definition path_name :: "path \<Rightarrow> string" where
  "path_name p = (if parts p = [] then [] else last (parts p))"

definition path_parent :: "path \<Rightarrow> path" where
  "path_parent p = Path (is_absolute p) (butlast (parts p))"

definition path_str :: "path \<Rightarrow> string" where
  "path_str p =
     (if is_absolute p then CHR ''/'' # py_join ''/'' (parts p)
      else if parts p = [] then ''.''
      else py_join ''/'' (parts p))"

text \<open>
  The part of the outside world the script touches: the text files, by path, and the
  lines printed so far.
\<close>

record world =
  files :: "path \<Rightarrow> string option"
  console :: "string list"

definition print :: "string \<Rightarrow> world \<Rightarrow> world" where
  "print line w = w\<lparr>console := console w @ [line]\<rparr>"

text \<open>
  The rendering context is a Python dict, in insertion order. A loaded template is the
  function that renders it from a context.
\<close>

type_synonym rendering_context = "(string \<times> json) list"

type_synonym template = "rendering_context \<Rightarrow> exn + string"

text \<open>
  What the script takes from its surroundings: the project root (the parent of the
  directory of the script), \<^verbatim>\<open>json.load\<close> on the text of a file, Jinja2's
  \<^verbatim>\<open>get_template\<close> on the environment that \<^verbatim>\<open>create_jinja_env\<close> builds for a
  template directory (delimiters and filters included), and what happens when the
  rendered text is written to a path.

  \<^verbatim>\<open>open(path, "w")\<close> can raise \<^verbatim>\<open>OSError\<close> and then leaves the file as it was. Once
  it has returned, the file exists and is empty; \<^verbatim>\<open>f.write\<close> can still raise
  \<^verbatim>\<open>OSError\<close>, or \<^verbatim>\<open>UnicodeEncodeError\<close> for text that UTF-8 cannot encode, and the
  file is then left with some prefix of the text, the first \<open>n\<close> characters.
\<close>

datatype write_outcome =
    Written
  | OpenFailed string
  | WriteFailed string nat
  | EncodeFailed nat

record platform =
  project_root :: path
  json_load :: "string \<Rightarrow> exn + json"
  get_template :: "(path \<Rightarrow> string option) \<Rightarrow> path \<Rightarrow> string \<Rightarrow> exn + template"
  write_result :: "path \<Rightarrow> string \<Rightarrow> write_outcome"

section \<open>\<^verbatim>\<open>load_json_file\<close> and \<^verbatim>\<open>load_all_configs\<close>\<close>

definition load_json_file :: "platform \<Rightarrow> path \<Rightarrow> world \<Rightarrow> (abort + json) \<times> world" where
  "load_json_file P filepath w =
     (case files w filepath of
        None \<Rightarrow>
          (Inr (JObj []), print (''Warning: Config file not found: '' @ path_str filepath) w)
      | Some text \<Rightarrow>
          (case json_load P text of
             Inr v \<Rightarrow> (Inr v, w)
           | Inl (JSONDecodeError msg) \<Rightarrow>
               (Inl (Exit 1),
                print (''Error: Invalid JSON in '' @ path_str filepath @ '': '' @ msg) w)
           | Inl e \<Rightarrow> (Inl (Uncaught e), w)))"

definition config_files :: "(string \<times> string) list" where
  "config_files =
     [(''profile'', ''profile.json''),
      (''experience_data'', ''experience.json''),
      (''projects_data'', ''projects.json''),
      (''skills_data'', ''skills.json''),
      (''education_data'', ''education.json''),
      (''contact'', ''contact.json''),
      (''seo'', ''seo.json'')]"

text \<open>
  The loop over \<^verbatim>\<open>config_files\<close>: a file that exists is loaded and stored under its
  key; the first abort ends the loop.
\<close>

fun load_configs ::
  "platform \<Rightarrow> path \<Rightarrow> (string \<times> string) list \<Rightarrow> rendering_context \<Rightarrow> world \<Rightarrow> (abort + rendering_context) \<times> world"
where
  "load_configs P data_dir [] context w = (Inr context, w)"
| "load_configs P data_dir ((key, filename) # rest) context w =
     (let filepath = path_join data_dir filename
      in if files w filepath \<noteq> None
         then (case load_json_file P filepath w of
                 (Inl a, w') \<Rightarrow> (Inl a, w')
               | (Inr v, w') \<Rightarrow> load_configs P data_dir rest (AList.update key v context) w')
         else load_configs P data_dir rest context w)"

text \<open>
  \<^verbatim>\<open>k in v\<close> and \<^verbatim>\<open>v[k]\<close> for a string \<open>k\<close>: a dict is asked for the key, a list for
  an equal element, a string for a substring; a list or a string cannot be indexed by a
  string, and the other values support neither operation.
\<close>

fun is_substring :: "string \<Rightarrow> string \<Rightarrow> bool" where
  "is_substring k [] = (k = [])"
| "is_substring k (c # cs) = (take (length k) (c # cs) = k \<or> is_substring k cs)"

definition py_contains :: "string \<Rightarrow> json \<Rightarrow> exn + bool" where
  "py_contains k v =
     (case v of
        JObj kvs \<Rightarrow> Inr (map_of kvs k \<noteq> None)
      | JArr xs \<Rightarrow> Inr (JStr k \<in> set xs)
      | JStr s \<Rightarrow> Inr (is_substring k s)
      | _ \<Rightarrow> Inl TypeError)"

definition py_getitem :: "json \<Rightarrow> string \<Rightarrow> exn + json" where
  "py_getitem v k =
     (case v of
        JObj kvs \<Rightarrow> (case map_of kvs k of None \<Rightarrow> Inl KeyError | Some x \<Rightarrow> Inr x)
      | _ \<Rightarrow> Inl TypeError)"

text \<open>
  One of the four flattening statements of \<^verbatim>\<open>load_all_configs\<close>:
  \<^verbatim>\<open>if src in context and sub in context[src]: context[dst] = context[src][sub]\<close>.
\<close>

definition promote :: "string \<Rightarrow> string \<Rightarrow> string \<Rightarrow> rendering_context \<Rightarrow> exn + rendering_context" where
  "promote src sub dst context =
     (case map_of context src of
        None \<Rightarrow> Inr context
      | Some d \<Rightarrow>
          and_then (py_contains sub d) (\<lambda>found.
            if found
            then and_then (py_getitem d sub) (\<lambda>v. Inr (AList.update dst v context))
            else Inr context))"

definition flatten :: "rendering_context \<Rightarrow> exn + rendering_context" where
  "flatten context =
     and_then (promote ''experience_data'' ''experience'' ''experience'' context) (\<lambda>c1.
     and_then (promote ''projects_data'' ''projects'' ''projects'' c1) (\<lambda>c2.
     and_then (promote ''skills_data'' ''categories'' ''skills'' c2) (\<lambda>c3.
     promote ''education_data'' ''education'' ''education'' c3)))"

definition load_all_configs :: "platform \<Rightarrow> path \<Rightarrow> world \<Rightarrow> (abort + rendering_context) \<times> world" where
  "load_all_configs P data_dir w =
     (case load_configs P data_dir config_files [] w of
        (Inl a, w') \<Rightarrow> (Inl a, w')
      | (Inr context, w') \<Rightarrow>
          (case flatten context of
             Inl e \<Rightarrow> (Inl (Uncaught e), w')
           | Inr context' \<Rightarrow> (Inr context', w')))"

section \<open>\<^verbatim>\<open>render_resume\<close> and \<^verbatim>\<open>main\<close>\<close>

definition required_keys :: "string list" where
  "required_keys = [''profile'', ''experience'', ''education'']"

definition missing_keys :: "rendering_context \<Rightarrow> string list" where
  "missing_keys context =
     filter (\<lambda>k. case map_of context k of None \<Rightarrow> True | Some v \<Rightarrow> \<not> truthy v) required_keys"

text \<open>
  \<^verbatim>\<open>list(context.keys())\<close> as printed: the keys are the identifiers of
  \<^verbatim>\<open>load_all_configs\<close>, whose \<^verbatim>\<open>repr\<close> is the key between single quotes.
\<close>

definition keys_repr :: "rendering_context \<Rightarrow> string" where
  "keys_repr context = ''['' @ py_join '', '' (map (\<lambda>(k, v). sq # k @ [sq]) context) @ '']''"

text \<open>
  The last step of \<^verbatim>\<open>render_resume\<close>: the output path is
  \<^verbatim>\<open>PROJECT_ROOT / output_file\<close>. An \<^verbatim>\<open>OSError\<close> (Python's \<^verbatim>\<open>IOError\<close>) is
  caught and reported, whether it comes from \<^verbatim>\<open>open\<close> or from the write; a
  \<^verbatim>\<open>UnicodeEncodeError\<close> escapes. Only a failure of \<^verbatim>\<open>open\<close> leaves the file as it
  was.
\<close>

definition write_output :: "platform \<Rightarrow> string \<Rightarrow> string \<Rightarrow> world \<Rightarrow> (abort + bool) \<times> world" where
  "write_output P output_file rendered w =
     (let output_path = path_join (project_root P) output_file;
          w1 = print (''Writing output to: '' @ path_str output_path) w
      in case write_result P output_path rendered of
           OpenFailed msg \<Rightarrow>
             (Inr False, print (''Error writing output file: '' @ msg) w1)
         | WriteFailed msg n \<Rightarrow>
             (Inr False,
              print (''Error writing output file: '' @ msg)
                (w1\<lparr>files := (files w1)(output_path \<mapsto> take n rendered)\<rparr>))
         | EncodeFailed n \<Rightarrow>
             (Inl (Uncaught UnicodeEncodeError),
              w1\<lparr>files := (files w1)(output_path \<mapsto> take n rendered)\<rparr>)
         | Written \<Rightarrow>
             (Inr True,
              print ''Resume template rendered successfully!''
                (w1\<lparr>files := (files w1)(output_path \<mapsto> rendered)\<rparr>)))"

text \<open>
  Loading and rendering the template: a \<^verbatim>\<open>TemplateError\<close> from either step is
  caught and reported, any other exception escapes.
\<close>

definition render_template ::
  "platform \<Rightarrow> path \<Rightarrow> string \<Rightarrow> string \<Rightarrow> rendering_context \<Rightarrow> world \<Rightarrow> (abort + bool) \<times> world"
where
  "render_template P template_dir template_file output_file context w =
     (case get_template P (files w) template_dir template_file of
        Inl (TemplateError msg) \<Rightarrow> (Inr False, print (''Error loading template: '' @ msg) w)
      | Inl e \<Rightarrow> (Inl (Uncaught e), w)
      | Inr template \<Rightarrow>
          (case template context of
             Inl (TemplateError msg) \<Rightarrow>
               (Inr False, print (''Error rendering template: '' @ msg) w)
           | Inl e \<Rightarrow> (Inl (Uncaught e), w)
           | Inr rendered \<Rightarrow> write_output P output_file rendered w))"

definition render_resume ::
  "platform \<Rightarrow> path \<Rightarrow> string \<Rightarrow> string \<Rightarrow> path \<Rightarrow> world \<Rightarrow> (abort + bool) \<times> world"
where
  "render_resume P template_dir template_file output_file data_dir w =
     (case load_all_configs P data_dir
             (print (''Loading config files from: '' @ path_str data_dir) w) of
        (Inl a, w') \<Rightarrow> (Inl a, w')
      | (Inr context, w') \<Rightarrow>
          if missing_keys context \<noteq> []
          then (Inr False,
                print (''Error: Missing required config data: ''
                       @ py_join '', '' (missing_keys context)) w')
          else render_template P template_dir template_file output_file context
                 (print (''Loading template: ''
                         @ path_str (path_join template_dir template_file))
                    (print (''Loaded configs: '' @ keys_repr context) w')))"

text \<open>
  The command line as \<^verbatim>\<open>argparse\<close> hands it over: each of the three flags is given or
  not. The defaults are built from the project root.
\<close>

record args =
  template_arg :: "string option"
  output_arg :: "string option"
  data_dir_arg :: "string option"

definition template_path :: "platform \<Rightarrow> args \<Rightarrow> path" where
  "template_path P a =
     (case template_arg a of
        None \<Rightarrow> path_join (path_join (project_root P) ''templates'') ''resume.tex.j2''
      | Some s \<Rightarrow> path_of_string s)"

definition output_path :: "platform \<Rightarrow> args \<Rightarrow> path" where
  "output_path P a =
     (case output_arg a of
        None \<Rightarrow> path_join (project_root P) ''resume.tex''
      | Some s \<Rightarrow> path_of_string s)"

definition data_dir :: "platform \<Rightarrow> args \<Rightarrow> path" where
  "data_dir P a =
     (case data_dir_arg a of
        None \<Rightarrow> path_join (project_root P) ''data''
      | Some s \<Rightarrow> path_of_string s)"

text \<open>
  \<^verbatim>\<open>main\<close>, up to the exit status of the process: \<^verbatim>\<open>sys.exit(0 if success else 1)\<close>;
  an exception that escapes ends the interpreter with status 1.
\<close>

definition exit_status :: "abort + bool \<Rightarrow> nat" where
  "exit_status r =
     (case r of
        Inr success \<Rightarrow> (if success then 0 else 1)
      | Inl (Exit n) \<Rightarrow> n
      | Inl (Uncaught e) \<Rightarrow> 1)"

definition main :: "platform \<Rightarrow> args \<Rightarrow> world \<Rightarrow> nat \<times> world" where
  "main P a w =
     (case render_resume P
             (path_parent (template_path P a)) (path_name (template_path P a))
             (path_name (output_path P a)) (data_dir P a) w of
        (r, w') \<Rightarrow> (exit_status r, w'))"

text \<open>
  The date strings the specification calls well-formed: four digits, \<^verbatim>\<open>-\<close>, two
  digits, the month between 1 and 12. The year and the month are the numbers these
  digits denote, and \<open>abbrev_month\<close> is the specification's month table, indexed
  from one.
\<close>

definition well_formed_date :: "string \<Rightarrow> bool" where
  "well_formed_date s =
     (length s = 7 \<and> list_all is_digit (take 4 s) \<and> s ! 4 = CHR ''-''
      \<and> list_all is_digit (drop 5 s)
      \<and> 1 \<le> digits_value (drop 5 s) \<and> digits_value (drop 5 s) \<le> 12)"

definition date_year :: "string \<Rightarrow> nat" where
  "date_year s = digits_value (take 4 s)"

definition date_month :: "string \<Rightarrow> nat" where
  "date_month s = digits_value (drop 5 s)"

definition abbrev_month :: "nat \<Rightarrow> string" where
  "abbrev_month m =
     (if m = 1 then ''Jan'' else if m = 2 then ''Feb'' else if m = 3 then ''Mar''
      else if m = 4 then ''Apr'' else if m = 5 then ''May'' else if m = 6 then ''Jun''
      else if m = 7 then ''Jul'' else if m = 8 then ''Aug'' else if m = 9 then ''Sep''
      else if m = 10 then ''Oct'' else if m = 11 then ''Nov'' else if m = 12 then ''Dec''
      else [])"

definition date_label :: "string \<Rightarrow> string" where
  "date_label s = abbrev_month (date_month s) @ '' '' @ str_nat (date_year s)"

text \<open>
  Three steps of a run started by \<^verbatim>\<open>main\<close>, named for the statements about it: the
  result of \<^verbatim>\<open>load_all_configs\<close> on the data directory, the result of
  \<^verbatim>\<open>get_template\<close> on the template path, and the path \<^verbatim>\<open>render_resume\<close> writes to.
\<close>

definition loaded :: "platform \<Rightarrow> args \<Rightarrow> world \<Rightarrow> (abort + rendering_context) \<times> world" where
  "loaded P a w =
     load_all_configs P (data_dir P a)
       (print (''Loading config files from: '' @ path_str (data_dir P a)) w)"

definition loaded_template :: "platform \<Rightarrow> args \<Rightarrow> world \<Rightarrow> exn + template" where
  "loaded_template P a w =
     get_template P (files w) (path_parent (template_path P a)) (path_name (template_path P a))"

definition output_target :: "platform \<Rightarrow> args \<Rightarrow> path" where
  "output_target P a = path_join (project_root P) (path_name (output_path P a))"

text \<open>
  The steps before the write succeed and produce the text \<open>rendered\<close>: the configs load,
  no required key is missing, the template loads and renders.
\<close>

definition rendered_by :: "platform \<Rightarrow> args \<Rightarrow> world \<Rightarrow> string \<Rightarrow> bool" where
  "rendered_by P a w rendered =
     (case fst (loaded P a w) of
        Inl x \<Rightarrow> False
      | Inr c \<Rightarrow>
          missing_keys c = []
          \<and> (case loaded_template P a w of
                Inl e \<Rightarrow> False
              | Inr tmpl \<Rightarrow> tmpl c = Inr rendered))"

text \<open>
  The promotion rules as the specification tabulates them (source key, subkey, promoted
  key), and the value a subkey has inside a source document of the context.
\<close>

definition promotions :: "(string \<times> string \<times> string) list" where
  "promotions =
     [(''experience_data'', ''experience'', ''experience''),
      (''projects_data'', ''projects'', ''projects''),
      (''skills_data'', ''categories'', ''skills''),
      (''education_data'', ''education'', ''education'')]"

definition subkey_value :: "rendering_context \<Rightarrow> string \<Rightarrow> string \<Rightarrow> json option" where
  "subkey_value c src sub =
     (case map_of c src of Some (JObj kvs) \<Rightarrow> map_of kvs sub | _ \<Rightarrow> None)"

section \<open>A sample project\<close>

text \<open>
  A small project to run the script on: three config files and a template under
  \<^verbatim>\<open>/proj\<close>. The file texts are stand-ins that \<open>sample_json_load\<close> maps to the
  documents they hold; every other text is malformed JSON. The template prints the
  escaped name of the profile.
\<close>

definition sample_json_load :: "string \<Rightarrow> exn + json" where
  "sample_json_load text =
     (if text = ''<profile>'' then Inr (JObj [(''name'', JStr ''Ada'')])
      else if text = ''<experience>''
        then Inr (JObj [(''experience'', JArr [JObj [(''company'', JStr ''Acme'')]])])
      else if text = ''<education>''
        then Inr (JObj [(''education'', JArr [JObj [(''school'', JStr ''MIT'')]])])
      else Inl (JSONDecodeError ''Expecting value''))"

definition sample_template :: template where
  "sample_template context =
     (case map_of context ''profile'' of
        Some (JObj kvs) \<Rightarrow>
          (case map_of kvs ''name'' of
             Some (JStr n) \<Rightarrow> Inr (''Resume of '' @ latex_escape (Some n))
           | _ \<Rightarrow> Inl (TemplateError ''name is undefined''))
      | _ \<Rightarrow> Inl (TemplateError ''profile is undefined''))"

definition sample_platform :: platform where
  "sample_platform =
     \<lparr>project_root = Path True [''proj''],
      json_load = sample_json_load,
      get_template = (\<lambda>fs dir name.
         if fs (path_join dir name) = None then Inl (TemplateError name)
         else Inr sample_template),
      write_result = (\<lambda>p rendered. Written)\<rparr>"

definition sample_world :: world where
  "sample_world =
     \<lparr>files =
        [Path True [''proj'', ''data'', ''profile.json''] \<mapsto> ''<profile>'',
         Path True [''proj'', ''data'', ''experience.json''] \<mapsto> ''<experience>'',
         Path True [''proj'', ''data'', ''education.json''] \<mapsto> ''<education>'',
         Path True [''proj'', ''templates'', ''resume.tex.j2''] \<mapsto> ''<template>''],
      console = []\<rparr>"

definition sample_args :: args where
  "sample_args = \<lparr>template_arg = None, output_arg = Some ''/tmp/out.tex'', data_dir_arg = None\<rparr>"


text \<open>
  Two variations of the sample project: \<^verbatim>\<open>education.json\<close> holds malformed JSON, and
  \<^verbatim>\<open>education.json\<close> is missing.
\<close>

definition sample_world_bad_json :: world where
  "sample_world_bad_json =
     sample_world\<lparr>files :=
       (files sample_world)(Path True [''proj'', ''data'', ''education.json''] \<mapsto> ''{'')\<rparr>"

definition sample_world_no_education :: world where
  "sample_world_no_education =
     sample_world\<lparr>files :=
       (files sample_world)(Path True [''proj'', ''data'', ''education.json''] := None)\<rparr>"

text \<open>
  The sample project on a full disk: the output file, which holds an earlier resume, can
  be opened, and the write then fails before any text is stored.
\<close>

definition sample_platform_disk_full :: platform where
  "sample_platform_disk_full =
     sample_platform\<lparr>write_result := (\<lambda>p rendered. WriteFailed ''No space left on device'' 0)\<rparr>"

definition sample_world_old_output :: world where
  "sample_world_old_output =
     sample_world\<lparr>files :=
       (files sample_world)(Path True [''proj'', ''resume.tex''] \<mapsto> ''Resume of Bob'')\<rparr>"

definition no_args :: args where
  "no_args = \<lparr>template_arg = None, output_arg = None, data_dir_arg = None\<rparr>"

text \<open>
  Stand-ins for the interpreter's \<^verbatim>\<open>repr\<close> of a float and of a string, to run
  \<^verbatim>\<open>join_tech\<close> on concrete lists.
\<close>

definition sample_float_repr :: "64 word \<Rightarrow> string" where
  "sample_float_repr w = ''0.0''"

definition sample_str_repr :: "string \<Rightarrow> string" where
  "sample_str_repr s = sq # s @ [sq]"

section \<open>\<^verbatim>\<open>join_tech\<close>\<close>

text \<open>
  \<^verbatim>\<open>repr(v)\<close> and \<^verbatim>\<open>str(v)\<close> of a JSON value. The text of a float and the quoted
  form of a string are computed by the interpreter; both functions are parameters here
  (\<open>float_repr\<close>, \<open>str_repr\<close>). \<^verbatim>\<open>str\<close> of a string is the string itself.
\<close>

fun py_repr :: "(64 word \<Rightarrow> string) \<Rightarrow> (string \<Rightarrow> string) \<Rightarrow> json \<Rightarrow> string" where
  "py_repr float_repr str_repr JNull = ''None''"
| "py_repr float_repr str_repr (JBool b) = (if b then ''True'' else ''False'')"
| "py_repr float_repr str_repr (JInt i) = str_int i"
| "py_repr float_repr str_repr (JFloat w) = float_repr w"
| "py_repr float_repr str_repr (JStr s) = str_repr s"
| "py_repr float_repr str_repr (JArr xs) =
     ''['' @ py_join '', '' (map (py_repr float_repr str_repr) xs) @ '']''"
| "py_repr float_repr str_repr (JObj kvs) =
     ''{'' @ py_join '', ''
        (map (\<lambda>(k, v). str_repr k @ '': '' @ py_repr float_repr str_repr v) kvs) @ ''}''"

definition py_str :: "(64 word \<Rightarrow> string) \<Rightarrow> (string \<Rightarrow> string) \<Rightarrow> json \<Rightarrow> string" where
  "py_str float_repr str_repr v =
     (case v of JStr s \<Rightarrow> s | _ \<Rightarrow> py_repr float_repr str_repr v)"

text \<open>
  What a \<^verbatim>\<open>for\<close> loop iterates over: the elements of a list, the characters of a
  string, the keys of a dict; any other value raises \<^verbatim>\<open>TypeError\<close>.
\<close>

definition py_iter :: "json \<Rightarrow> exn + json list" where
  "py_iter v =
     (case v of
        JArr xs \<Rightarrow> Inr xs
      | JStr s \<Rightarrow> Inr (map (\<lambda>c. JStr [c]) s)
      | JObj kvs \<Rightarrow> Inr (map (\<lambda>(k, v). JStr k) kvs)
      | _ \<Rightarrow> Inl TypeError)"

text \<open>
  \<^verbatim>\<open>sep.join(vs)\<close> raises \<^verbatim>\<open>TypeError\<close> unless every item is a string.
\<close>

fun the_strings :: "json list \<Rightarrow> string list option" where
  "the_strings [] = Some []"
| "the_strings (JStr s # vs) = map_option ((#) s) (the_strings vs)"
| "the_strings (v # vs) = None"

definition str_join :: "string \<Rightarrow> json list \<Rightarrow> exn + string" where
  "str_join sep vs =
     (case the_strings vs of None \<Rightarrow> Inl TypeError | Some ss \<Rightarrow> Inr (py_join sep ss))"

text \<open>
  One turn of the loop of \<^verbatim>\<open>join_tech\<close>: the value appended to \<^verbatim>\<open>names\<close>. For a
  dict it is \<^verbatim>\<open>tech.get("name", "")\<close>, whatever JSON value that is.
\<close>

definition tech_name :: "(64 word \<Rightarrow> string) \<Rightarrow> (string \<Rightarrow> string) \<Rightarrow> json \<Rightarrow> json" where
  "tech_name float_repr str_repr tech =
     (case tech of
        JObj kvs \<Rightarrow> (case map_of kvs ''name'' of None \<Rightarrow> JStr [] | Some v \<Rightarrow> v)
      | _ \<Rightarrow> JStr (py_str float_repr str_repr tech))"

text \<open>
  \<^verbatim>\<open>join_tech(technologies)\<close>: a falsy argument gives the empty string; otherwise
  the truthy entries of \<^verbatim>\<open>names\<close> are joined with a comma and a space.
\<close>

definition join_tech :: "(64 word \<Rightarrow> string) \<Rightarrow> (string \<Rightarrow> string) \<Rightarrow> json \<Rightarrow> exn + string" where
  "join_tech float_repr str_repr technologies =
     (if \<not> truthy technologies then Inr []
      else and_then (py_iter technologies) (\<lambda>techs.
           str_join '', '' (filter truthy (map (tech_name float_repr str_repr) techs))))"


text \<open>
  The inputs of the specification: an element is a plain string or a record; a record's
  \<^verbatim>\<open>name\<close> is missing, a string, or a falsy value. The name an element stands for is
  the string itself or the record's \<^verbatim>\<open>name\<close> when that is a string, and empty
  otherwise. \<open>pieces\<close> lists what one element of any kind adds to the output.
\<close>

definition record_ok :: "(string \<times> json) list \<Rightarrow> bool" where
  "record_ok kvs =
     (case map_of kvs ''name'' of
        None \<Rightarrow> True
      | Some (JStr n) \<Rightarrow> True
      | Some v \<Rightarrow> \<not> truthy v)"

definition technology_entry :: "json \<Rightarrow> bool" where
  "technology_entry t =
     (case t of JStr s \<Rightarrow> True | JObj kvs \<Rightarrow> record_ok kvs | _ \<Rightarrow> False)"

definition technology_name :: "json \<Rightarrow> string" where
  "technology_name t =
     (case t of
        JStr s \<Rightarrow> s
      | JObj kvs \<Rightarrow> (case map_of kvs ''name'' of Some (JStr n) \<Rightarrow> n | _ \<Rightarrow> [])
      | _ \<Rightarrow> [])"

definition records_ok :: "json \<Rightarrow> bool" where
  "records_ok t = (case t of JObj kvs \<Rightarrow> record_ok kvs | _ \<Rightarrow> True)"

definition pieces :: "(64 word \<Rightarrow> string) \<Rightarrow> (string \<Rightarrow> string) \<Rightarrow> json \<Rightarrow> string list" where
  "pieces float_repr str_repr t =
     (case t of
        JObj kvs \<Rightarrow> (if technology_name t = [] then [] else [technology_name t])
      | JStr s \<Rightarrow> (if s = [] then [] else [s])
      | _ \<Rightarrow> [py_str float_repr str_repr t])"

section \<open>Properties of \<^verbatim>\<open>latex_escape\<close>\<close>

lemma py_replace_char:
  "py_replace s [c] new = concat (map (\<lambda>x. if x = c then new else [x]) s)"
  by (induction s) simp_all

text \<open>
  Claim C8. \<^verbatim>\<open>latex_escape\<close> maps \<^verbatim>\<open>50% & $5_{x}\<close> to
  \<^verbatim>\<open>50\% \& \$5\_\{x\}\<close>, and maps the empty string and an absent input to the
  empty string.
\<close>

theorem latex_escape_example:
  "latex_escape (Some ''50% & $5_{x}'') =
     ''50'' @ bs # ''% '' @ bs # ''& '' @ bs # ''$5'' @ bs # ''_'' @ bs # ''{x'' @ bs # ''}''
   \<and> latex_escape (Some []) = []
   \<and> latex_escape None = []"
  by (simp add: latex_escape_def replacements_def py_replace_char)

text \<open>
  Claim C1. The claim says that the sequence emitted for an input backslash reaches the
  output intact. The table escapes the backslash first, but the rows for \<^verbatim>\<open>{\<close> and
  \<^verbatim>\<open>}\<close> come later and run over the whole intermediate string, so they rewrite the
  braces of \<^verbatim>\<open>\textbackslash{}\<close>: a single backslash is rendered as
  \<^verbatim>\<open>\textbackslash\{\}\<close>, which is not its designated escape sequence.
\<close>

theorem latex_escape_backslash_rewritten:
  "latex_escape (Some [bs]) = bs # ''textbackslash'' @ bs # ''{'' @ bs # ''}''
   \<and> latex_escape (Some [bs]) \<noteq> bs # ''textbackslash{}''"
  by (simp add: latex_escape_def replacements_def py_replace_char)

section \<open>Properties of \<^verbatim>\<open>format_duration\<close>\<close>

lemma is_digit_not_space: "is_digit c \<Longrightarrow> \<not> is_space c"
  by (auto simp: is_digit_def is_space_def)

lemma is_digit_not_special:
  "is_digit c \<Longrightarrow> c \<noteq> CHR ''-'' \<and> c \<noteq> CHR ''+'' \<and> c \<noteq> CHR ''_''"
  by (auto simp: is_digit_def)

lemma py_strip_digits:
  assumes "list_all is_digit ds"
  shows "py_strip ds = ds"
proof (cases ds rule: rev_cases)
  case Nil
  then show ?thesis by (simp add: py_strip_def)
next
  case (snoc ys y)
  with assms have y: "\<not> is_space y" by (simp add: is_digit_not_space)
  have front: "dropWhile is_space ds = ds"
    using assms by (cases ds) (simp_all add: is_digit_not_space)
  show ?thesis
    unfolding py_strip_def front using y snoc by simp
qed

lemma int_body_digits: "ds \<noteq> [] \<Longrightarrow> list_all is_digit ds \<Longrightarrow> int_body ds"
  by (induction ds rule: int_body.induct) (auto simp: is_digit_not_special)

lemma filter_digits: "list_all is_digit ds \<Longrightarrow> filter (\<lambda>c. c \<noteq> CHR ''_'') ds = ds"
  by (induction ds) (auto simp: is_digit_not_special)

lemma py_int_digits:
  assumes "ds \<noteq> []" and "list_all is_digit ds"
  shows "py_int ds = Inr (int (digits_value ds))"
proof -
  have "is_digit (hd ds)" using assms by (cases ds) simp_all
  then have "hd ds \<noteq> CHR ''-''" "hd ds \<noteq> CHR ''+''"
    by (simp_all add: is_digit_not_special)
  then show ?thesis
    using assms
    by (simp add: py_int_def py_strip_digits int_body_digits filter_digits Let_def)
qed

lemma split_from_no_sep:
  "d \<notin> set xs \<Longrightarrow> split_from [d] cur xs = [cur @ xs]"
  by (induction xs arbitrary: cur) auto

lemma split_from_one_sep:
  "d \<notin> set xs \<Longrightarrow> d \<notin> set ys \<Longrightarrow> split_from [d] cur (xs @ d # ys) = [cur @ xs, ys]"
  by (induction xs arbitrary: cur) (auto simp: split_from_no_sep)

lemma months_index:
  "1 \<le> m \<Longrightarrow> m \<le> 12 \<Longrightarrow> py_index months (int m - 1) = Inr (abbrev_month m)"
proof -
  assume "1 \<le> m" "m \<le> 12"
  then consider "m = 1" | "m = 2" | "m = 3" | "m = 4" | "m = 5" | "m = 6"
    | "m = 7" | "m = 8" | "m = 9" | "m = 10" | "m = 11" | "m = 12"
    by atomize_elim arith
  then show ?thesis
    by cases (simp_all add: py_index_def months_def abbrev_month_def)
qed

lemma well_formed_date_split:
  assumes "well_formed_date s"
  shows "s = take 4 s @ CHR ''-'' # drop 5 s"
    and "CHR ''-'' \<notin> set (take 4 s)" and "CHR ''-'' \<notin> set (drop 5 s)"
    and "take 4 s \<noteq> []" and "drop 5 s \<noteq> []"
proof -
  from assms have len: "length s = 7" and sep: "s ! 4 = CHR ''-''"
    and ys: "list_all is_digit (take 4 s)" and ms: "list_all is_digit (drop 5 s)"
    by (simp_all add: well_formed_date_def)
  have "s = take 4 s @ drop 4 s" by simp
  also have "drop 4 s = s ! 4 # drop 5 s"
    using len Cons_nth_drop_Suc [of 4 s] by simp
  finally show "s = take 4 s @ CHR ''-'' # drop 5 s" using sep by simp
  show "CHR ''-'' \<notin> set (take 4 s)"
    using ys is_digit_not_special by (auto simp: list_all_iff)
  show "CHR ''-'' \<notin> set (drop 5 s)"
    using ms is_digit_not_special by (auto simp: list_all_iff)
  show "take 4 s \<noteq> []" "drop 5 s \<noteq> []" using len by auto
qed

lemma format_date_well_formed:
  assumes "well_formed_date s"
  shows "format_date s = Inr (date_label s)"
proof -
  note sp = well_formed_date_split [OF assms]
  from assms have ys: "list_all is_digit (take 4 s)" and ms: "list_all is_digit (drop 5 s)"
    and m: "1 \<le> digits_value (drop 5 s)" "digits_value (drop 5 s) \<le> 12"
    by (simp_all add: well_formed_date_def)
  have parts: "py_split s ''-'' = Inr [take 4 s, drop 5 s]"
    using split_from_one_sep [OF sp(2) sp(3), of "[]"] sp(1) by (simp add: py_split_def)
  have year: "py_int (take 4 s) = Inr (int (date_year s))"
    using py_int_digits [OF sp(4) ys] by (simp add: date_year_def)
  have month: "py_int (drop 5 s) = Inr (int (date_month s))"
    using py_int_digits [OF sp(5) ms] by (simp add: date_month_def)
  have name: "py_index months (int (date_month s) - 1) = Inr (abbrev_month (date_month s))"
    using months_index m by (simp add: date_month_def)
  have p0: "py_index [take 4 s, drop 5 s] 0 = Inr (take 4 s)"
    and p1: "py_index [take 4 s, drop 5 s] 1 = Inr (drop 5 s)"
    by (simp_all add: py_index_def)
  show ?thesis
    by (simp add: format_date_def parts and_then_def p0 p1 year month name
        date_label_def str_int_def)
qed

lemma format_duration_general:
  assumes "well_formed_date start"
    and "\<And>e. end = Some e \<Longrightarrow> well_formed_date e"
  shows "format_duration start end =
     Inr (date_label start @ '' -- '' @
          (case end of None \<Rightarrow> ''Present'' | Some e \<Rightarrow> date_label e))"
proof (cases "end")
  case None
  then show ?thesis
    by (simp add: format_duration_def format_date_well_formed [OF assms(1)] and_then_def)
next
  case (Some e)
  then have wf: "well_formed_date e" by (rule assms(2))
  then have "e \<noteq> []" by (auto simp: well_formed_date_def)
  then show ?thesis
    using Some
    by (simp add: format_duration_def format_date_well_formed [OF assms(1)]
        format_date_well_formed [OF wf] and_then_def)
qed

text \<open>
  Where \<^verbatim>\<open>format_date\<close> does fail: a month above 12 (or below -11) is outside the
  month table, and a year or month that \<^verbatim>\<open>int\<close> rejects raises \<^verbatim>\<open>ValueError\<close>.
\<close>

lemma format_date_month_out_of_range:
  assumes "split_from ''-'' [] s = p0 # p1 # rest" and "py_int p0 = Inr y"
    and "py_int p1 = Inr m" and "m < - 11 \<or> 12 < m"
  shows "format_date s = Inl IndexError"
  using assms
  by (auto simp: format_date_def py_split_def and_then_def py_index_def months_def)

lemma format_date_not_numeric:
  assumes "split_from ''-'' [] s = p0 # p1 # rest"
    and "py_int p0 = Inl e \<or> (\<exists>y. py_int p0 = Inr y) \<and> py_int p1 = Inl e"
  shows "format_date s = Inl e"
  using assms
  by (auto simp: format_date_def py_split_def and_then_def py_index_def)

text \<open>
  A year without a leading zero is printed as its four digits.
\<close>

lemma digit_char_of_val: "is_digit c \<Longrightarrow> ''0123456789'' ! digit_val c = c"
  by (auto simp: is_digit_def digit_val_def)

lemma digit_val_less: "is_digit c \<Longrightarrow> digit_val c < 10"
  by (auto simp: is_digit_def digit_val_def)

lemma digit_val_pos: "is_digit c \<Longrightarrow> c \<noteq> CHR ''0'' \<Longrightarrow> 0 < digit_val c"
  by (auto simp: is_digit_def digit_val_def)

lemma str_nat_digit: "is_digit c \<Longrightarrow> str_nat (digit_val c) = [c]"
  by (subst str_nat.simps) (simp add: digit_val_less digit_char_of_val del: str_nat.simps)

lemma str_nat_snoc:
  assumes "0 < n" and "is_digit c"
  shows "str_nat (10 * n + digit_val c) = str_nat n @ [c]"
proof -
  have d: "digit_val c < 10" using assms(2) by (rule digit_val_less)
  have "\<not> 10 * n + digit_val c < 10" using assms(1) by simp
  moreover have "(10 * n + digit_val c) div 10 = n" using d by simp
  moreover have "(10 * n + digit_val c) mod 10 = digit_val c" using d by simp
  ultimately show ?thesis
    by (subst str_nat.simps) (simp add: digit_char_of_val [OF assms(2)] del: str_nat.simps)
qed

lemma year_text_verbatim:
  assumes "well_formed_date s" and "s ! 0 \<noteq> CHR ''0''"
  shows "str_nat (date_year s) = take 4 s"
proof -
  from assms(1) have len: "length s = 7" and ds: "list_all is_digit (take 4 s)"
    by (simp_all add: well_formed_date_def)
  from len obtain a b c d r where s: "s = a # b # c # d # r"
    by (auto simp: length_Suc_conv numeral_eq_Suc)
  with ds assms(2) have dg: "is_digit a" "is_digit b" "is_digit c" "is_digit d" "a \<noteq> CHR ''0''"
    by simp_all
  have pa: "0 < digit_val a" using dg(1,5) by (rule digit_val_pos)
  define n1 where "n1 = digit_val a"
  define n2 where "n2 = 10 * n1 + digit_val b"
  define n3 where "n3 = 10 * n2 + digit_val c"
  have p1: "0 < n1" using pa by (simp add: n1_def)
  then have p2: "0 < n2" and p3: "0 < n3" by (simp_all add: n2_def n3_def)
  have t1: "str_nat n1 = [a]" unfolding n1_def by (rule str_nat_digit [OF dg(1)])
  have t2: "str_nat n2 = [a, b]"
    unfolding n2_def str_nat_snoc [OF p1 dg(2)] t1 by (simp del: str_nat.simps)
  have t3: "str_nat n3 = [a, b, c]"
    unfolding n3_def str_nat_snoc [OF p2 dg(3)] t2 by (simp del: str_nat.simps)
  have t4: "str_nat (10 * n3 + digit_val d) = [a, b, c, d]"
    unfolding str_nat_snoc [OF p3 dg(4)] t3 by (simp del: str_nat.simps)
  have "date_year s = 10 * n3 + digit_val d"
    by (simp add: s date_year_def digits_value_def n3_def n2_def n1_def)
  with t4 show ?thesis by (simp add: s del: str_nat.simps)
qed

text \<open>
  Claim C7. For well-formed \<^verbatim>\<open>YYYY-MM\<close> strings \<^verbatim>\<open>format_duration\<close> returns
  the abbreviated month and the year of the start date, \<^verbatim>\<open> -- \<close>, and then the same
  for the end date, or \<^verbatim>\<open>Present\<close> when there is no end date. The year is printed as
  a number (\<open>str_nat\<close>), as the f-string of the source does. The two examples of the
  specification are evaluated as well.
\<close>

theorem format_duration_well_formed:
  "(\<forall>start end.
      well_formed_date start \<and> (\<forall>e. end = Some e \<longrightarrow> well_formed_date e) \<longrightarrow>
      format_duration start end =
        Inr (date_label start @ '' -- '' @
             (case end of None \<Rightarrow> ''Present'' | Some e \<Rightarrow> date_label e)))
   \<and> format_duration ''2022-05'' (Some ''2024-08'') = Inr ''May 2022 -- Aug 2024''
   \<and> format_duration ''2025-01'' None = Inr ''Jan 2025 -- Present''"
proof (intro conjI allI impI)
  fix start "end"
  assume "well_formed_date start \<and> (\<forall>e. end = Some e \<longrightarrow> well_formed_date e)"
  then show "format_duration start end =
        Inr (date_label start @ '' -- '' @
             (case end of None \<Rightarrow> ''Present'' | Some e \<Rightarrow> date_label e))"
    by (intro format_duration_general) auto
next
  show "format_duration ''2022-05'' (Some ''2024-08'') = Inr ''May 2022 -- Aug 2024''"
    by code_simp
next
  show "format_duration ''2025-01'' None = Inr ''Jan 2025 -- Present''"
    by code_simp
qed

theorem format_duration_well_formed_witness:
  "well_formed_date ''1999-12'' \<and> well_formed_date ''2000-02''
   \<and> format_duration ''1999-12'' (Some ''2000-02'') = Inr ''Dec 1999 -- Feb 2000''"
proof -
  have a: "well_formed_date ''1999-12''" and b: "well_formed_date ''2000-02''"
    by (simp_all add: well_formed_date_def is_digit_def digits_value_def digit_val_def)
  have "format_duration ''1999-12'' (Some ''2000-02'') =
     Inr (date_label ''1999-12'' @ '' -- '' @ date_label ''2000-02'')"
    using format_duration_well_formed a b by simp
  moreover have "date_label ''1999-12'' = ''Dec 1999''" "date_label ''2000-02'' = ''Feb 2000''"
    by (simp_all add: date_label_def date_month_def date_year_def abbrev_month_def
        digits_value_def digit_val_def)
  ultimately show ?thesis using a b by simp
qed



text \<open>
  Claim C3. The claim says that a month outside 1 to 12, month 0 included, makes the
  call fail. \<^verbatim>\<open>months[month - 1]\<close> is then \<^verbatim>\<open>months[-1]\<close>, which Python reads from
  the end of the list: month 0 is formatted as December and the call returns.
\<close>

theorem format_duration_month_zero:
  "format_duration ''2022-00'' None = Inr ''Dec 2022 -- Present''"
  by code_simp

section \<open>Properties of \<^verbatim>\<open>join_tech\<close>\<close>

lemma str_nat_nonempty: "str_nat n \<noteq> []"
  by (subst str_nat.simps) simp

lemma str_int_nonempty: "str_int i \<noteq> []"
  by (simp add: str_int_def str_nat_nonempty)

lemma py_str_nonempty:
  assumes "\<forall>w. float_repr w \<noteq> []"
  shows "py_str float_repr str_repr t = [] \<longleftrightarrow> t = JStr []"
  using assms by (cases t) (auto simp: py_str_def str_int_nonempty)

lemma the_strings_append:
  "the_strings (us @ vs) =
     (case the_strings us of
        None \<Rightarrow> None
      | Some a \<Rightarrow> (case the_strings vs of None \<Rightarrow> None | Some b \<Rightarrow> Some (a @ b)))"
  by (induction us rule: the_strings.induct) (auto split: option.splits)

lemma kept_names_step:
  assumes "records_ok t"
    and "(\<exists>kvs. t = JObj kvs) \<or> (\<exists>s. t = JStr s) \<or> py_str float_repr str_repr t \<noteq> []"
  shows "the_strings (filter truthy [tech_name float_repr str_repr t])
           = Some (pieces float_repr str_repr t)"
proof (cases t)
  case (JObj kvs)
  with assms(1) show ?thesis
    by (auto simp: records_ok_def record_ok_def tech_name_def pieces_def technology_name_def
        split: option.splits json.splits)
next
  case (JStr s)
  then show ?thesis by (simp add: tech_name_def pieces_def py_str_def)
qed (use assms(2) in \<open>simp_all add: tech_name_def pieces_def\<close>)

lemma kept_names:
  assumes "list_all records_ok xs"
    and "\<And>t. t \<in> set xs \<Longrightarrow>
           (\<exists>kvs. t = JObj kvs) \<or> (\<exists>s. t = JStr s) \<or> py_str float_repr str_repr t \<noteq> []"
  shows "the_strings (filter truthy (map (tech_name float_repr str_repr) xs))
           = Some (concat (map (pieces float_repr str_repr) xs))"
  using assms
proof (induction xs)
  case Nil
  then show ?case by simp
next
  case (Cons t ts)
  then have t: "records_ok t" and ts: "list_all records_ok ts" by simp_all
  have step: "the_strings (filter truthy [tech_name float_repr str_repr t])
                = Some (pieces float_repr str_repr t)"
    by (rule kept_names_step [OF t]) (rule Cons.prems(2), simp)
  have rest: "the_strings (filter truthy (map (tech_name float_repr str_repr) ts))
                = Some (concat (map (pieces float_repr str_repr) ts))"
    by (rule Cons.IH [OF ts]) (rule Cons.prems(2), simp)
  have "filter truthy (map (tech_name float_repr str_repr) (t # ts))
      = filter truthy [tech_name float_repr str_repr t]
        @ filter truthy (map (tech_name float_repr str_repr) ts)"
    by simp
  then show ?case
    by (simp only: the_strings_append step rest) simp
qed

lemma join_tech_list:
  assumes "list_all records_ok xs"
    and "\<And>t. t \<in> set xs \<Longrightarrow>
           (\<exists>kvs. t = JObj kvs) \<or> (\<exists>s. t = JStr s) \<or> py_str float_repr str_repr t \<noteq> []"
  shows "join_tech float_repr str_repr (JArr xs)
           = Inr (py_join '', '' (concat (map (pieces float_repr str_repr) xs)))"
proof (cases xs)
  case Nil
  then show ?thesis by (simp add: join_tech_def)
next
  case (Cons t ts)
  then show ?thesis
    using kept_names [OF assms]
    by (simp add: join_tech_def py_iter_def and_then_def str_join_def)
qed

lemma pieces_technology_entries:
  "list_all technology_entry xs \<Longrightarrow>
     concat (map (pieces float_repr str_repr) xs)
       = filter (\<lambda>n. n \<noteq> []) (map technology_name xs)"
  by (induction xs)
     (auto simp: technology_entry_def pieces_def technology_name_def split: json.splits)

lemma technology_entry_records_ok: "technology_entry t \<Longrightarrow> records_ok t"
  by (cases t) (simp_all add: technology_entry_def records_ok_def)

text \<open>
  A record whose \<^verbatim>\<open>name\<close> is a truthy value other than a string is kept by the
  filter and makes \<^verbatim>\<open>join\<close> raise.
\<close>

lemma join_tech_numeric_name:
  "join_tech float_repr str_repr (JArr [JObj [(''name'', JInt 5)]]) = Inl TypeError"
  by (simp add: join_tech_def py_iter_def and_then_def tech_name_def str_join_def)

text \<open>
  Claim C9, amended. For a list of plain strings and of records whose \<^verbatim>\<open>name\<close> is
  missing, a string, or a falsy value, \<^verbatim>\<open>join_tech\<close> returns the non-empty names
  joined by a comma and a space, so records without a usable name are skipped; the empty
  list and an absent list give the empty string; and the example of the specification
  gives \<^verbatim>\<open>Go, Rust\<close>.
\<close>

theorem join_tech_names:
  assumes "list_all technology_entry xs"
  shows "join_tech float_repr str_repr (JArr xs)
           = Inr (py_join '', '' (filter (\<lambda>n. n \<noteq> []) (map technology_name xs)))
       \<and> join_tech float_repr str_repr (JArr []) = Inr []
       \<and> join_tech float_repr str_repr JNull = Inr []
       \<and> join_tech float_repr str_repr
            (JArr [JObj [(''name'', JStr ''Go'')], JStr ''Rust'', JObj [(''name'', JStr [])]])
           = Inr ''Go, Rust''"
proof (intro conjI)
  have ok: "list_all records_ok xs"
    using assms by (simp add: list_all_iff technology_entry_records_ok)
  have shape: "(\<exists>kvs. t = JObj kvs) \<or> (\<exists>s. t = JStr s) \<or> py_str float_repr str_repr t \<noteq> []"
    if "t \<in> set xs" for t
    using assms that by (cases t) (auto simp: list_all_iff technology_entry_def)
  show "join_tech float_repr str_repr (JArr xs)
           = Inr (py_join '', '' (filter (\<lambda>n. n \<noteq> []) (map technology_name xs)))"
    using join_tech_list [OF ok shape] pieces_technology_entries [OF assms] by simp
  show "join_tech float_repr str_repr (JArr []) = Inr []"
    by (simp add: join_tech_def)
  show "join_tech float_repr str_repr JNull = Inr []"
    by (simp add: join_tech_def)
  show "join_tech float_repr str_repr
            (JArr [JObj [(''name'', JStr ''Go'')], JStr ''Rust'', JObj [(''name'', JStr [])]])
           = Inr ''Go, Rust''"
    by (simp add: join_tech_def py_iter_def and_then_def str_join_def tech_name_def py_str_def)
qed

theorem join_tech_names_witness:
  "list_all technology_entry
     [JStr ''C'', JObj [(''id'', JInt 1)], JObj [(''name'', JStr ''Haskell''), (''years'', JInt 3)]]
   \<and> join_tech (\<lambda>w. ''0.0'') (\<lambda>s. s)
        (JArr [JStr ''C'', JObj [(''id'', JInt 1)],
               JObj [(''name'', JStr ''Haskell''), (''years'', JInt 3)]])
       = Inr ''C, Haskell''"
proof -
  have h: "list_all technology_entry
     [JStr ''C'', JObj [(''id'', JInt 1)], JObj [(''name'', JStr ''Haskell''), (''years'', JInt 3)]]"
    by (simp add: technology_entry_def record_ok_def)
  show ?thesis
    using h join_tech_names [OF h, of "\<lambda>w. ''0.0''" "\<lambda>s. s"]
    by (simp add: technology_name_def)
qed

text \<open>
  Claim C9 as first stated covers every record with a \<^verbatim>\<open>name\<close> field. A record whose
  name is a number is not skipped: the number passes the filter, and \<^verbatim>\<open>join\<close> raises
  \<^verbatim>\<open>TypeError\<close> for the whole list instead of returning \<^verbatim>\<open>Go, Rust\<close>.
\<close>

theorem join_tech_names_counterexample:
  "join_tech sample_float_repr sample_str_repr
     (JArr [JObj [(''name'', JStr ''Go'')], JObj [(''name'', JInt 5)], JStr ''Rust''])
     = Inl TypeError
   \<and> join_tech sample_float_repr sample_str_repr
     (JArr [JObj [(''name'', JStr ''Go'')], JObj [(''name'', JInt 5)], JStr ''Rust''])
     \<noteq> Inr ''Go, Rust''"
  by (simp add: join_tech_def py_iter_def and_then_def tech_name_def str_join_def py_str_def)

text \<open>
  Claim C10. An element that is neither a record nor a string adds its \<^verbatim>\<open>str\<close>
  text to the joined output, which is never empty (given that the text of a float is
  never empty), so it is neither skipped nor a failure; an empty plain string adds
  nothing, like a record without a name.
\<close>

theorem join_tech_other_values:
  assumes "list_all records_ok xs" and "\<forall>w. float_repr w \<noteq> []"
  shows "join_tech float_repr str_repr (JArr xs)
           = Inr (py_join '', '' (concat (map (pieces float_repr str_repr) xs)))
       \<and> (\<forall>t. (\<forall>kvs. t \<noteq> JObj kvs) \<and> (\<forall>s. t \<noteq> JStr s) \<longrightarrow>
               pieces float_repr str_repr t = [py_str float_repr str_repr t]
             \<and> py_str float_repr str_repr t \<noteq> [])
       \<and> pieces float_repr str_repr (JStr []) = []"
proof (intro conjI allI impI)
  show "join_tech float_repr str_repr (JArr xs)
           = Inr (py_join '', '' (concat (map (pieces float_repr str_repr) xs)))"
    using assms(1)
    by (rule join_tech_list) (auto simp: py_str_nonempty [OF assms(2)])
next
  fix t
  assume "(\<forall>kvs. t \<noteq> JObj kvs) \<and> (\<forall>s. t \<noteq> JStr s)"
  then show "pieces float_repr str_repr t = [py_str float_repr str_repr t]"
    by (cases t) (simp_all add: pieces_def)
next
  fix t
  assume "(\<forall>kvs. t \<noteq> JObj kvs) \<and> (\<forall>s. t \<noteq> JStr s)"
  then show "py_str float_repr str_repr t \<noteq> []"
    by (simp add: py_str_nonempty [OF assms(2)])
next
  show "pieces float_repr str_repr (JStr []) = []"
    by (simp add: pieces_def)
qed

theorem join_tech_other_values_witness:
  "list_all records_ok [JInt 5, JBool True, JStr [], JObj [], JNull, JStr ''Go'']
   \<and> (\<forall>w::64 word. ''0.0'' \<noteq> [])
   \<and> join_tech (\<lambda>w. ''0.0'') (\<lambda>s. s)
        (JArr [JInt 5, JBool True, JStr [], JObj [], JNull, JStr ''Go''])
       = Inr ''5, True, None, Go''"
proof -
  have h: "list_all records_ok [JInt 5, JBool True, JStr [], JObj [], JNull, JStr ''Go'']"
    by (simp add: records_ok_def record_ok_def)
  have f: "\<forall>w::64 word. (\<lambda>w. ''0.0'') w \<noteq> []" by simp
  show ?thesis
    using h join_tech_other_values [OF h f, of "\<lambda>s. s"]
    by (simp add: pieces_def py_str_def technology_name_def str_int_def)
qed

section \<open>Properties of \<^verbatim>\<open>load_all_configs\<close>\<close>

lemma files_print [simp]: "files (print line w) = files w"
  by (simp add: print_def)

lemma console_print [simp]: "console (print line w) = console w @ [line]"
  by (simp add: print_def)

lemma load_json_file_files:
  "load_json_file P filepath w = (r, w') \<Longrightarrow> files w' = files w"
  by (auto simp: load_json_file_def split: option.splits sum.splits exn.splits)

lemma load_json_file_Inr:
  assumes "load_json_file P filepath w = (Inr v, w')" and "files w filepath = Some text"
  shows "json_load P text = Inr v \<and> w' = w"
  using assms by (auto simp: load_json_file_def split: sum.splits exn.splits)

lemma load_json_file_malformed:
  assumes "files w filepath = Some text" and "json_load P text = Inl (JSONDecodeError msg)"
  shows "fst (load_json_file P filepath w) = Inl (Exit 1)"
  using assms by (simp add: load_json_file_def)

lemma load_json_file_abort:
  "load_json_file P filepath w = (Inl a, w') \<Longrightarrow> a = Exit 1 \<or> (\<exists>e. a = Uncaught e)"
  by (auto simp: load_json_file_def split: option.splits sum.splits exn.splits)

lemma load_configs_files:
  "load_configs P dd cfs context w = (r, w') \<Longrightarrow> files w' = files w"
proof (induction cfs arbitrary: "context" w)
  case Nil
  then show ?case by simp
next
  case (Cons cf cfs)
  obtain key filename where cf: "cf = (key, filename)" by (cases cf)
  show ?case
  proof (cases "files w (path_join dd filename) = None")
    case True
    with Cons cf show ?thesis by simp
  next
    case False
    obtain r1 w1 where l: "load_json_file P (path_join dd filename) w = (r1, w1)"
      by (cases "load_json_file P (path_join dd filename) w")
    then have f1: "files w1 = files w" by (rule load_json_file_files)
    show ?thesis
    proof (cases r1)
      case (Inl a)
      with Cons.prems cf False l f1 show ?thesis by auto
    next
      case (Inr v)
      with Cons.prems cf False l
      have "load_configs P dd cfs (AList.update key v context) w1 = (r, w')" by simp
      then have "files w' = files w1" by (rule Cons.IH)
      with f1 show ?thesis by simp
    qed
  qed
qed

lemma load_configs_abort:
  "load_configs P dd cfs context w = (Inl a, w') \<Longrightarrow> a = Exit 1 \<or> (\<exists>e. a = Uncaught e)"
proof (induction cfs arbitrary: "context" w)
  case Nil
  then show ?case by simp
next
  case (Cons cf cfs)
  obtain key filename where cf: "cf = (key, filename)" by (cases cf)
  show ?case
  proof (cases "files w (path_join dd filename) = None")
    case True
    with Cons cf show ?thesis by simp
  next
    case False
    obtain r1 w1 where l: "load_json_file P (path_join dd filename) w = (r1, w1)"
      by (cases "load_json_file P (path_join dd filename) w")
    show ?thesis
    proof (cases r1)
      case (Inl b)
      with Cons.prems cf False l have "a = b" by auto
      with l Inl show ?thesis using load_json_file_abort by blast
    next
      case (Inr v)
      with Cons.prems cf False l
      have "load_configs P dd cfs (AList.update key v context) w1 = (Inl a, w')" by simp
      then show ?thesis by (rule Cons.IH)
    qed
  qed
qed

lemma load_all_configs_files:
  "load_all_configs P dd w = (r, w') \<Longrightarrow> files w' = files w"
  by (auto simp: load_all_configs_def split: prod.splits sum.splits dest: load_configs_files)

lemma load_all_configs_abort:
  "load_all_configs P dd w = (Inl a, w') \<Longrightarrow> a = Exit 1 \<or> (\<exists>e. a = Uncaught e)"
  by (auto simp: load_all_configs_def split: prod.splits sum.splits dest: load_configs_abort)


lemma load_configs_contents:
  assumes "load_configs P dd cfs c0 w = (Inr c, w')" and "distinct (map fst cfs)"
  shows "map_of c k =
     (case map_of cfs k of
        None \<Rightarrow> map_of c0 k
      | Some filename \<Rightarrow>
          (case files w (path_join dd filename) of
             None \<Rightarrow> map_of c0 k
           | Some text \<Rightarrow> (case json_load P text of Inr v \<Rightarrow> Some v | Inl e \<Rightarrow> None)))
     \<and> (\<forall>filename text. map_of cfs k = Some filename
            \<and> files w (path_join dd filename) = Some text \<longrightarrow> (\<exists>v. json_load P text = Inr v))"
  using assms
proof (induction cfs arbitrary: c0 w)
  case Nil
  then show ?case by simp
next
  case (Cons cf cfs)
  obtain key filename where cf: "cf = (key, filename)" by (cases cf)
  from Cons.prems(2) cf have d: "distinct (map fst cfs)" and fresh: "map_of cfs key = None"
    by (auto simp: map_of_eq_None_iff)
  show ?case
  proof (cases "files w (path_join dd filename)")
    case None
    with Cons.prems(1) cf have "load_configs P dd cfs c0 w = (Inr c, w')" by simp
    from Cons.IH [OF this d] None cf fresh show ?thesis by auto
  next
    case (Some content)
    obtain r1 w1 where l: "load_json_file P (path_join dd filename) w = (r1, w1)"
      by (cases "load_json_file P (path_join dd filename) w")
    from Cons.prems(1) cf Some l obtain v where r1: "r1 = Inr v"
      by (cases r1) auto
    from load_json_file_Inr [OF l [unfolded r1] Some]
    have j: "json_load P content = Inr v" and w1: "w1 = w" by simp_all
    from Cons.prems(1) cf Some l r1 w1
    have "load_configs P dd cfs (AList.update key v c0) w = (Inr c, w')" by simp
    from Cons.IH [OF this d] Some cf fresh j show ?thesis
      by (auto simp: update_conv' split: option.splits sum.splits)
  qed
qed

lemma promote_map_of:
  assumes "promote src sub dst c = Inr c'"
  shows "map_of c' =
     (case subkey_value c src sub of None \<Rightarrow> map_of c | Some v \<Rightarrow> (map_of c)(dst \<mapsto> v))"
proof (cases "map_of c src")
  case None
  with assms show ?thesis by (simp add: promote_def subkey_value_def)
next
  case (Some d)
  with assms show ?thesis
    by (cases d)
       (auto simp: promote_def subkey_value_def and_then_def py_contains_def py_getitem_def
          update_conv' split: if_splits option.splits)
qed


lemma promote_lookup:
  assumes "promote src sub dst c = Inr c'"
  shows "map_of c' k =
     (if k = dst
      then (case subkey_value c src sub of None \<Rightarrow> map_of c dst | Some v \<Rightarrow> Some v)
      else map_of c k)"
  using promote_map_of [OF assms] by (simp split: option.splits)

lemma promote_subkey_value:
  assumes "promote src sub dst c = Inr c'" and "s \<noteq> dst"
  shows "subkey_value c' s t = subkey_value c s t"
  using promote_lookup [OF assms(1), of s] assms(2) by (simp add: subkey_value_def)

lemma and_then_Inr:
  "and_then r f = Inr y \<longleftrightarrow> (\<exists>x. r = Inr x \<and> f x = Inr y)"
  by (cases r) (simp_all add: and_then_def)

lemma flatten_lookup:
  assumes "flatten c0 = Inr c4"
  shows "map_of c4 k =
     (if k = ''experience''
        then (case subkey_value c0 ''experience_data'' ''experience'' of
                None \<Rightarrow> map_of c0 k | Some v \<Rightarrow> Some v)
      else if k = ''projects''
        then (case subkey_value c0 ''projects_data'' ''projects'' of
                None \<Rightarrow> map_of c0 k | Some v \<Rightarrow> Some v)
      else if k = ''skills''
        then (case subkey_value c0 ''skills_data'' ''categories'' of
                None \<Rightarrow> map_of c0 k | Some v \<Rightarrow> Some v)
      else if k = ''education''
        then (case subkey_value c0 ''education_data'' ''education'' of
                None \<Rightarrow> map_of c0 k | Some v \<Rightarrow> Some v)
      else map_of c0 k)"
proof -
  from assms obtain c1 c2 c3 where
    p1: "promote ''experience_data'' ''experience'' ''experience'' c0 = Inr c1" and
    p2: "promote ''projects_data'' ''projects'' ''projects'' c1 = Inr c2" and
    p3: "promote ''skills_data'' ''categories'' ''skills'' c2 = Inr c3" and
    p4: "promote ''education_data'' ''education'' ''education'' c3 = Inr c4"
    by (auto simp: flatten_def and_then_Inr)
  have s2: "subkey_value c1 ''projects_data'' ''projects''
              = subkey_value c0 ''projects_data'' ''projects''"
    by (rule promote_subkey_value [OF p1]) simp
  have s3: "subkey_value c2 ''skills_data'' ''categories''
              = subkey_value c0 ''skills_data'' ''categories''"
    using promote_subkey_value [OF p2, of "''skills_data''" "''categories''"]
      promote_subkey_value [OF p1, of "''skills_data''" "''categories''"] by simp
  have s4: "subkey_value c3 ''education_data'' ''education''
              = subkey_value c0 ''education_data'' ''education''"
    using promote_subkey_value [OF p3, of "''education_data''" "''education''"]
      promote_subkey_value [OF p2, of "''education_data''" "''education''"]
      promote_subkey_value [OF p1, of "''education_data''" "''education''"] by simp
  show ?thesis
    unfolding promote_lookup [OF p4, of k] promote_lookup [OF p3] promote_lookup [OF p2]
      promote_lookup [OF p1] s2 s3 s4
    by (auto split: option.splits)
qed

lemma flatten_total:
  assumes "\<And>src. src \<in> {''experience_data'', ''projects_data'', ''skills_data'', ''education_data''}
             \<Longrightarrow> map_of c0 src = None \<or> (\<exists>kvs. map_of c0 src = Some (JObj kvs))"
  shows "\<exists>c4. flatten c0 = Inr c4"
proof -
  have step: "\<exists>c'. promote src sub dst c = Inr c'"
    if "map_of c src = None \<or> (\<exists>kvs. map_of c src = Some (JObj kvs))" for src sub dst c
    using that
    by (auto simp: promote_def and_then_def py_contains_def py_getitem_def split: option.splits)
  have keep: "map_of c' s = None \<or> (\<exists>kvs. map_of c' s = Some (JObj kvs))"
    if "promote src sub dst c = Inr c'" "s \<noteq> dst"
      "map_of c s = None \<or> (\<exists>kvs. map_of c s = Some (JObj kvs))" for src sub dst c c' s
    using promote_lookup [OF that(1), of s] that(2,3) by simp
  have a1: "map_of c0 ''experience_data'' = None
              \<or> (\<exists>kvs. map_of c0 ''experience_data'' = Some (JObj kvs))"
    using assms by simp
  obtain c1 where p1: "promote ''experience_data'' ''experience'' ''experience'' c0 = Inr c1"
    using step [OF a1] by blast
  have a2: "map_of c1 ''projects_data'' = None
              \<or> (\<exists>kvs. map_of c1 ''projects_data'' = Some (JObj kvs))"
    using keep [OF p1, of "''projects_data''"] assms by auto
  obtain c2 where p2: "promote ''projects_data'' ''projects'' ''projects'' c1 = Inr c2"
    using step [OF a2] by blast
  have a3: "map_of c2 ''skills_data'' = None \<or> (\<exists>kvs. map_of c2 ''skills_data'' = Some (JObj kvs))"
    using keep [OF p2, of "''skills_data''"] keep [OF p1, of "''skills_data''"] assms by auto
  obtain c3 where p3: "promote ''skills_data'' ''categories'' ''skills'' c2 = Inr c3"
    using step [OF a3] by blast
  have a4: "map_of c3 ''education_data'' = None
              \<or> (\<exists>kvs. map_of c3 ''education_data'' = Some (JObj kvs))"
    using keep [OF p3, of "''education_data''"] keep [OF p2, of "''education_data''"]
      keep [OF p1, of "''education_data''"] assms by auto
  obtain c4 where p4: "promote ''education_data'' ''education'' ''education'' c3 = Inr c4"
    using step [OF a4] by blast
  show ?thesis
    using p1 p2 p3 p4 by (auto simp: flatten_def and_then_def)
qed

lemma load_all_configs_Inr:
  assumes "load_all_configs P dd w = (Inr c, w')"
  shows "\<exists>c0. load_configs P dd config_files [] w = (Inr c0, w') \<and> flatten c0 = Inr c"
  using assms
  by (auto simp: load_all_configs_def split: prod.splits sum.splits)

lemma distinct_config_files: "distinct (map fst config_files)"
  by (simp add: config_files_def)

lemma load_all_configs_lookup:
  assumes "load_all_configs P dd w = (Inr c, w')"
  shows "\<forall>(key, filename) \<in> set config_files.
           (case files w (path_join dd filename) of
              None \<Rightarrow> map_of c key = None
            | Some content \<Rightarrow> \<exists>v. json_load P content = Inr v \<and> map_of c key = Some v)"
    and "\<forall>(src, sub, dst) \<in> set promotions. map_of c dst = subkey_value c src sub"
proof -
  from load_all_configs_Inr [OF assms] obtain c0 where
    l: "load_configs P dd config_files [] w = (Inr c0, w')" and f: "flatten c0 = Inr c"
    by blast
  note c0 = load_configs_contents [OF l distinct_config_files]
  have other: "map_of c0 k = None" if "map_of config_files k = None" for k
    using c0 [of k] that by simp
  have dst: "map_of c0 ''experience'' = None" "map_of c0 ''projects'' = None"
    "map_of c0 ''skills'' = None" "map_of c0 ''education'' = None"
    by (rule other, simp add: config_files_def)+
  have same: "map_of c k = map_of c0 k"
    if "k \<notin> {''experience'', ''projects'', ''skills'', ''education''}" for k
    using flatten_lookup [OF f, of k] that by simp
  have sv: "subkey_value c src sub = subkey_value c0 src sub"
    if "src \<notin> {''experience'', ''projects'', ''skills'', ''education''}" for src sub
    using same [OF that] by (simp add: subkey_value_def)
  show "\<forall>(key, filename) \<in> set config_files.
           (case files w (path_join dd filename) of
              None \<Rightarrow> map_of c key = None
            | Some content \<Rightarrow> \<exists>v. json_load P content = Inr v \<and> map_of c key = Some v)"
  proof (clarify)
    fix key filename
    assume m: "(key, filename) \<in> set config_files"
    then have mk: "map_of config_files key = Some filename"
      using distinct_config_files by simp
    from m have "key \<notin> {''experience'', ''projects'', ''skills'', ''education''}"
      by (auto simp: config_files_def)
    then have "map_of c key = map_of c0 key" by (rule same)
    then show "case files w (path_join dd filename) of
              None \<Rightarrow> map_of c key = None
            | Some content \<Rightarrow> \<exists>v. json_load P content = Inr v \<and> map_of c key = Some v"
      using c0 [of key] mk by (auto split: option.splits sum.splits)
  qed
  show "\<forall>(src, sub, dst) \<in> set promotions. map_of c dst = subkey_value c src sub"
    using flatten_lookup [OF f, of "''experience''"] flatten_lookup [OF f, of "''projects''"]
      flatten_lookup [OF f, of "''skills''"] flatten_lookup [OF f, of "''education''"]
      sv [of "''experience_data''"] sv [of "''projects_data''"] sv [of "''skills_data''"]
      sv [of "''education_data''"] dst
    by (simp add: promotions_def split: option.splits)
qed



lemma load_all_configs_three_files:
  assumes "files w (path_join dd ''profile.json'') = Some tp" and "json_load P tp = Inr vp"
    and "files w (path_join dd ''experience.json'') = Some te"
    and "json_load P te = Inr (JObj ke)" and "map_of ke ''experience'' = Some (JArr xs)"
    and "files w (path_join dd ''education.json'') = Some td"
    and "json_load P td = Inr (JObj kd)" and "map_of kd ''education'' = Some (JArr ys)"
    and "files w (path_join dd ''projects.json'') = None"
    and "files w (path_join dd ''skills.json'') = None"
    and "files w (path_join dd ''contact.json'') = None"
    and "files w (path_join dd ''seo.json'') = None"
  shows "load_all_configs P dd w =
     (Inr [(''profile'', vp), (''experience_data'', JObj ke), (''education_data'', JObj kd),
           (''experience'', JArr xs), (''education'', JArr ys)], w)"
proof -
  have l: "load_configs P dd config_files [] w =
     (Inr [(''profile'', vp), (''experience_data'', JObj ke), (''education_data'', JObj kd)], w)"
    using assms by (simp add: config_files_def load_json_file_def)
  have f: "flatten [(''profile'', vp), (''experience_data'', JObj ke), (''education_data'', JObj kd)]
     = Inr [(''profile'', vp), (''experience_data'', JObj ke), (''education_data'', JObj kd),
            (''experience'', JArr xs), (''education'', JArr ys)]"
    using assms(5,8)
    by (simp add: flatten_def promote_def and_then_def py_contains_def py_getitem_def)
  show ?thesis by (simp add: load_all_configs_def l f)
qed

text \<open>
  Claim C6. Whenever \<^verbatim>\<open>load_all_configs\<close> returns a context: the key of a config
  document is in it exactly when the file exists (and then holds what \<^verbatim>\<open>json.load\<close>
  returned for the file); a promoted key is in it exactly when its source key holds an
  object that has the subkey, and then holds the subkey's value. With only
  \<^verbatim>\<open>profile.json\<close>, \<^verbatim>\<open>experience.json\<close> (holding an \<^verbatim>\<open>experience\<close> list) and
  \<^verbatim>\<open>education.json\<close> (holding an \<^verbatim>\<open>education\<close> list) the call returns, and the context
  has \<^verbatim>\<open>profile\<close>, \<^verbatim>\<open>experience\<close>, \<^verbatim>\<open>education\<close> and the two source keys, and
  neither \<^verbatim>\<open>projects\<close> nor \<^verbatim>\<open>skills\<close>.
\<close>

theorem load_all_configs_context:
  "(\<forall>P dd w c w'. load_all_configs P dd w = (Inr c, w') \<longrightarrow>
      (\<forall>(key, filename) \<in> set config_files.
          (map_of c key \<noteq> None \<longleftrightarrow> files w (path_join dd filename) \<noteq> None)
        \<and> (\<forall>content. files w (path_join dd filename) = Some content \<longrightarrow>
              json_load P content = Inr (the (map_of c key))))
    \<and> (\<forall>(src, sub, dst) \<in> set promotions.
          (map_of c dst \<noteq> None \<longleftrightarrow>
             (\<exists>kvs. map_of c src = Some (JObj kvs) \<and> map_of kvs sub \<noteq> None))
        \<and> map_of c dst = subkey_value c src sub))
   \<and> (\<forall>P dd w tp te td vp ke kd xs ys.
        files w (path_join dd ''profile.json'') = Some tp \<and> json_load P tp = Inr vp
      \<and> files w (path_join dd ''experience.json'') = Some te
      \<and> json_load P te = Inr (JObj ke) \<and> map_of ke ''experience'' = Some (JArr xs)
      \<and> files w (path_join dd ''education.json'') = Some td
      \<and> json_load P td = Inr (JObj kd) \<and> map_of kd ''education'' = Some (JArr ys)
      \<and> files w (path_join dd ''projects.json'') = None
      \<and> files w (path_join dd ''skills.json'') = None
      \<and> files w (path_join dd ''contact.json'') = None
      \<and> files w (path_join dd ''seo.json'') = None
      \<longrightarrow> load_all_configs P dd w =
            (Inr [(''profile'', vp), (''experience_data'', JObj ke),
                  (''education_data'', JObj kd),
                  (''experience'', JArr xs), (''education'', JArr ys)], w))"
proof (intro conjI allI impI)
  fix P dd w c w'
  assume a: "load_all_configs P dd w = (Inr c, w')"
  show "\<forall>(key, filename) \<in> set config_files.
          (map_of c key \<noteq> None \<longleftrightarrow> files w (path_join dd filename) \<noteq> None)
        \<and> (\<forall>content. files w (path_join dd filename) = Some content \<longrightarrow>
              json_load P content = Inr (the (map_of c key)))"
    using load_all_configs_lookup(1) [OF a] by (fastforce split: option.splits)
  show "\<forall>(src, sub, dst) \<in> set promotions.
          (map_of c dst \<noteq> None \<longleftrightarrow>
             (\<exists>kvs. map_of c src = Some (JObj kvs) \<and> map_of kvs sub \<noteq> None))
        \<and> map_of c dst = subkey_value c src sub"
  proof (clarify, intro conjI)
    fix src sub dst
    assume "(src, sub, dst) \<in> set promotions"
    with load_all_configs_lookup(2) [OF a]
    have e: "map_of c dst = subkey_value c src sub" by auto
    then show "map_of c dst = subkey_value c src sub" .
    show "map_of c dst \<noteq> None \<longleftrightarrow>
             (\<exists>kvs. map_of c src = Some (JObj kvs) \<and> map_of kvs sub \<noteq> None)"
      unfolding e by (auto simp: subkey_value_def split: option.splits json.splits)
  qed
next
  fix P :: platform and dd and w :: world and tp te td vp ke kd xs ys
  assume "files w (path_join dd ''profile.json'') = Some tp \<and> json_load P tp = Inr vp
      \<and> files w (path_join dd ''experience.json'') = Some te
      \<and> json_load P te = Inr (JObj ke) \<and> map_of ke ''experience'' = Some (JArr xs)
      \<and> files w (path_join dd ''education.json'') = Some td
      \<and> json_load P td = Inr (JObj kd) \<and> map_of kd ''education'' = Some (JArr ys)
      \<and> files w (path_join dd ''projects.json'') = None
      \<and> files w (path_join dd ''skills.json'') = None
      \<and> files w (path_join dd ''contact.json'') = None
      \<and> files w (path_join dd ''seo.json'') = None"
  then have sc: "files w (path_join dd ''profile.json'') = Some tp" "json_load P tp = Inr vp"
    "files w (path_join dd ''experience.json'') = Some te"
    "json_load P te = Inr (JObj ke)" "map_of ke ''experience'' = Some (JArr xs)"
    "files w (path_join dd ''education.json'') = Some td"
    "json_load P td = Inr (JObj kd)" "map_of kd ''education'' = Some (JArr ys)"
    "files w (path_join dd ''projects.json'') = None"
    "files w (path_join dd ''skills.json'') = None"
    "files w (path_join dd ''contact.json'') = None"
    "files w (path_join dd ''seo.json'') = None"
    by simp_all
  show "load_all_configs P dd w =
            (Inr [(''profile'', vp), (''experience_data'', JObj ke),
                  (''education_data'', JObj kd),
                  (''experience'', JArr xs), (''education'', JArr ys)], w)"
    by (rule load_all_configs_three_files [OF sc])
qed


theorem load_all_configs_context_witness:
  "load_all_configs sample_platform (Path True [''proj'', ''data'']) sample_world =
     (Inr [(''profile'', JObj [(''name'', JStr ''Ada'')]),
           (''experience_data'', JObj [(''experience'', JArr [JObj [(''company'', JStr ''Acme'')]])]),
           (''education_data'', JObj [(''education'', JArr [JObj [(''school'', JStr ''MIT'')]])]),
           (''experience'', JArr [JObj [(''company'', JStr ''Acme'')]]),
           (''education'', JArr [JObj [(''school'', JStr ''MIT'')]])], sample_world)"
proof -
  have h: "files sample_world (path_join (Path True [''proj'', ''data'']) ''profile.json'')
          = Some ''<profile>''
      \<and> json_load sample_platform ''<profile>'' = Inr (JObj [(''name'', JStr ''Ada'')])
      \<and> files sample_world (path_join (Path True [''proj'', ''data'']) ''experience.json'')
          = Some ''<experience>''
      \<and> json_load sample_platform ''<experience>''
          = Inr (JObj [(''experience'', JArr [JObj [(''company'', JStr ''Acme'')]])])
      \<and> map_of [(''experience'', JArr [JObj [(''company'', JStr ''Acme'')]])] ''experience''
          = Some (JArr [JObj [(''company'', JStr ''Acme'')]])
      \<and> files sample_world (path_join (Path True [''proj'', ''data'']) ''education.json'')
          = Some ''<education>''
      \<and> json_load sample_platform ''<education>''
          = Inr (JObj [(''education'', JArr [JObj [(''school'', JStr ''MIT'')]])])
      \<and> map_of [(''education'', JArr [JObj [(''school'', JStr ''MIT'')]])] ''education''
          = Some (JArr [JObj [(''school'', JStr ''MIT'')]])
      \<and> files sample_world (path_join (Path True [''proj'', ''data'']) ''projects.json'') = None
      \<and> files sample_world (path_join (Path True [''proj'', ''data'']) ''skills.json'') = None
      \<and> files sample_world (path_join (Path True [''proj'', ''data'']) ''contact.json'') = None
      \<and> files sample_world (path_join (Path True [''proj'', ''data'']) ''seo.json'') = None"
    by (simp add: sample_world_def sample_platform_def sample_json_load_def path_join_def
        path_of_string_def)
  show ?thesis
    by (rule load_all_configs_context [THEN conjunct2, rule_format, OF h])
qed

section \<open>Properties of \<^verbatim>\<open>render_resume\<close> and \<^verbatim>\<open>main\<close>\<close>

text \<open>
  Claim C2. The claim says that the rendered text is written to exactly the path given
  as \<^verbatim>\<open>--output\<close>. \<^verbatim>\<open>main\<close> passes only \<^verbatim>\<open>output_path.name\<close> on, and
  \<^verbatim>\<open>render_resume\<close> joins it to the project root: with \<^verbatim>\<open>--output /tmp/out.tex\<close> the
  sample run succeeds, writes \<^verbatim>\<open>/proj/out.tex\<close> and leaves \<^verbatim>\<open>/tmp/out.tex\<close> absent.
\<close>

theorem main_output_directory_dropped:
  "fst (main sample_platform sample_args sample_world) = 0
   \<and> output_arg sample_args = Some ''/tmp/out.tex''
   \<and> files (snd (main sample_platform sample_args sample_world))
        (path_of_string ''/tmp/out.tex'') = None
   \<and> files (snd (main sample_platform sample_args sample_world))
        (path_of_string ''/proj/out.tex'') = Some ''Resume of Ada''"
  by code_simp

lemma write_output_cases:
  assumes "write_output P out rendered w = (r, w')"
  shows "(r = Inr True \<and> write_result P (path_join (project_root P) out) rendered = Written
            \<and> files w' = (files w)(path_join (project_root P) out \<mapsto> rendered))
       \<or> ((r = Inr False \<or> r = Inl (Uncaught UnicodeEncodeError))
            \<and> write_result P (path_join (project_root P) out) rendered \<noteq> Written
            \<and> (files w' = files w
                 \<or> (\<exists>n. files w' = (files w)(path_join (project_root P) out \<mapsto> take n rendered))))"
  using assms by (auto simp: write_output_def Let_def split: write_outcome.splits)

lemma render_template_cases:
  assumes "render_template P td tf out c w = (r, w')"
  shows "(\<exists>tmpl rendered. get_template P (files w) td tf = Inr tmpl \<and> tmpl c = Inr rendered
            \<and> write_output P out rendered w = (r, w'))
       \<or> ((r = Inr False \<or> (\<exists>e. r = Inl (Uncaught e))) \<and> files w' = files w
            \<and> \<not> (\<exists>tmpl rendered. get_template P (files w) td tf = Inr tmpl
                  \<and> tmpl c = Inr rendered))"
proof (cases "get_template P (files w) td tf")
  case (Inl e)
  with assms show ?thesis
    by (cases e) (auto simp: render_template_def)
next
  case tm: (Inr tmpl)
  show ?thesis
  proof (cases "tmpl c")
    case (Inl e)
    with assms tm show ?thesis
      by (cases e) (auto simp: render_template_def)
  next
    case (Inr rendered)
    with assms tm show ?thesis
      by (simp add: render_template_def)
  qed
qed

lemma rendered_by_iff:
  "rendered_by P a w rendered \<longleftrightarrow>
     (\<exists>c tmpl. fst (loaded P a w) = Inr c \<and> missing_keys c = []
        \<and> loaded_template P a w = Inr tmpl \<and> tmpl c = Inr rendered)"
  by (auto simp: rendered_by_def split: sum.splits)

lemma main_cases:
  assumes "main P a w = (status, w')"
  shows "(\<exists>rendered. rendered_by P a w rendered
            \<and> write_result P (output_target P a) rendered = Written
            \<and> status = 0 \<and> files w' = (files w)(output_target P a \<mapsto> rendered))
       \<or> (\<exists>rendered. rendered_by P a w rendered
            \<and> write_result P (output_target P a) rendered \<noteq> Written
            \<and> status = 1
            \<and> (files w' = files w
                 \<or> (\<exists>n. files w' = (files w)(output_target P a \<mapsto> take n rendered))))
       \<or> ((\<forall>rendered. \<not> rendered_by P a w rendered) \<and> status = 1 \<and> files w' = files w)"
proof -
  let ?td = "path_parent (template_path P a)" and ?tf = "path_name (template_path P a)"
  let ?out = "path_name (output_path P a)"
  obtain r where rr: "render_resume P ?td ?tf ?out (data_dir P a) w = (r, w')"
    and st: "status = exit_status r"
    using assms by (auto simp: main_def split: prod.splits)
  obtain lr w1 where l: "loaded P a w = (lr, w1)" by (cases "loaded P a w")
  then have f1: "files w1 = files w"
    using load_all_configs_files [of P "data_dir P a" _ lr w1] by (simp add: loaded_def)
  show ?thesis
  proof (cases lr)
    case (Inl x)
    with rr l have "r = Inl x" "w' = w1" by (simp_all add: render_resume_def loaded_def)
    moreover have "x = Exit 1 \<or> (\<exists>e. x = Uncaught e)"
      using load_all_configs_abort l Inl unfolding loaded_def by blast
    ultimately have "status = 1" "files w' = files w"
      using f1 by (auto simp: st exit_status_def)
    moreover have "\<forall>rendered. \<not> rendered_by P a w rendered"
      using l Inl by (simp add: rendered_by_def)
    ultimately show ?thesis by blast
  next
    case (Inr c)
    show ?thesis
    proof (cases "missing_keys c = []")
      case False
      with rr l Inr have "r = Inr False" "files w' = files w1"
        by (auto simp: render_resume_def loaded_def)
      then have "status = 1" "files w' = files w"
        using f1 by (simp_all add: st exit_status_def)
      moreover have "\<forall>rendered. \<not> rendered_by P a w rendered"
        using l Inr False by (simp add: rendered_by_def)
      ultimately show ?thesis by blast
    next
      case True
      let ?w2 = "print (''Loading template: '' @ path_str (path_join ?td ?tf))
                    (print (''Loaded configs: '' @ keys_repr c) w1)"
      have f2: "files ?w2 = files w" using f1 by simp
      from rr l Inr True have rt: "render_template P ?td ?tf ?out c ?w2 = (r, w')"
        by (simp add: render_resume_def loaded_def)
      have rb: "rendered_by P a w rendered \<longleftrightarrow>
          (\<exists>tmpl. get_template P (files w) ?td ?tf = Inr tmpl \<and> tmpl c = Inr rendered)"
        for rendered
        using l Inr True by (auto simp: rendered_by_def loaded_template_def split: sum.splits)
      from render_template_cases [OF rt, unfolded f2]
      show ?thesis
      proof
        assume "\<exists>tmpl rendered. get_template P (files w) ?td ?tf = Inr tmpl
            \<and> tmpl c = Inr rendered \<and> write_output P ?out rendered ?w2 = (r, w')"
        then obtain tmpl rendered where
          g: "get_template P (files w) ?td ?tf = Inr tmpl" "tmpl c = Inr rendered"
          and wo: "write_output P ?out rendered ?w2 = (r, w')"
          by blast
        from g have by_r: "rendered_by P a w rendered" using rb by blast
        from write_output_cases [OF wo, unfolded f2, folded output_target_def]
        show ?thesis
        proof
          assume h: "r = Inr True \<and> write_result P (output_target P a) rendered = Written
            \<and> files w' = (files w)(output_target P a \<mapsto> rendered)"
          then have "status = 0" by (simp add: st exit_status_def)
          with h by_r show ?thesis by blast
        next
          assume h: "(r = Inr False \<or> r = Inl (Uncaught UnicodeEncodeError))
            \<and> write_result P (output_target P a) rendered \<noteq> Written
            \<and> (files w' = files w
                 \<or> (\<exists>n. files w' = (files w)(output_target P a \<mapsto> take n rendered)))"
          then have "status = 1" by (auto simp: st exit_status_def)
          with h by_r show ?thesis by blast
        qed
      next
        assume h: "(r = Inr False \<or> (\<exists>e. r = Inl (Uncaught e))) \<and> files w' = files w
          \<and> \<not> (\<exists>tmpl rendered. get_template P (files w) ?td ?tf = Inr tmpl
                  \<and> tmpl c = Inr rendered)"
        then have "status = 1" by (auto simp: st exit_status_def)
        with h rb show ?thesis by blast
      qed
    qed
  qed
qed

lemma rendered_by_unique:
  "rendered_by P a w x \<Longrightarrow> rendered_by P a w y \<Longrightarrow> x = y"
  by (auto simp: rendered_by_def split: sum.splits)

lemma malformed_json_aborts:
  assumes "(key, filename) \<in> set config_files"
    and "files w (path_join (data_dir P a) filename) = Some content"
    and "json_load P content = Inl (JSONDecodeError msg)"
  shows "\<forall>c. fst (loaded P a w) \<noteq> Inr c"
proof (intro allI notI)
  fix c
  assume "fst (loaded P a w) = Inr c"
  then obtain w1 where "loaded P a w = (Inr c, w1)" by (cases "loaded P a w") simp
  from load_all_configs_Inr [OF this [unfolded loaded_def]] obtain c0 where
    l: "load_configs P (data_dir P a) config_files []
          (print (''Loading config files from: '' @ path_str (data_dir P a)) w) = (Inr c0, w1)"
    by blast
  from assms(1) have mk: "map_of config_files key = Some filename"
    using distinct_config_files by simp
  from load_configs_contents [OF l distinct_config_files, of key] mk assms(2)
  obtain v where "json_load P content = Inr v" by auto
  with assms(3) show False by simp
qed

text \<open>
  Claim C5. Every run ends with exit status 0 or 1. Malformed JSON in a config file that
  exists, a missing required key, a template that fails to load and a template that
  fails to render each give status 1 and leave every file as it was, so the output file
  is neither created nor modified. The files change only when the template has been
  rendered in memory; with status 0 the one change is the rendered text at the output
  path, and once the text is rendered the status is 0 exactly when the write succeeds.
\<close>

theorem main_exit_status:
  assumes "main P a w = (status, w')"
  shows "(status = 0 \<or> status = 1)
       \<and> ((\<exists>key filename content msg. (key, filename) \<in> set config_files
               \<and> files w (path_join (data_dir P a) filename) = Some content
               \<and> json_load P content = Inl (JSONDecodeError msg))
            \<longrightarrow> status = 1 \<and> files w' = files w)
       \<and> ((\<exists>c. fst (loaded P a w) = Inr c \<and> missing_keys c \<noteq> [])
            \<longrightarrow> status = 1 \<and> files w' = files w)
       \<and> ((\<exists>e. loaded_template P a w = Inl e)
            \<longrightarrow> status = 1 \<and> files w' = files w)
       \<and> ((\<exists>c tmpl e. fst (loaded P a w) = Inr c \<and> loaded_template P a w = Inr tmpl
               \<and> tmpl c = Inl e)
            \<longrightarrow> status = 1 \<and> files w' = files w)
       \<and> (files w' \<noteq> files w \<longrightarrow>
            (\<exists>c tmpl rendered. fst (loaded P a w) = Inr c \<and> missing_keys c = []
               \<and> loaded_template P a w = Inr tmpl \<and> tmpl c = Inr rendered))
       \<and> (status = 0 \<longrightarrow>
            (\<exists>c tmpl rendered. fst (loaded P a w) = Inr c \<and> missing_keys c = []
               \<and> loaded_template P a w = Inr tmpl \<and> tmpl c = Inr rendered
               \<and> files w' = (files w)(output_target P a \<mapsto> rendered)))
       \<and> (\<forall>c tmpl rendered. fst (loaded P a w) = Inr c \<and> missing_keys c = []
               \<and> loaded_template P a w = Inr tmpl \<and> tmpl c = Inr rendered
            \<longrightarrow> (status = 0 \<longleftrightarrow> write_result P (output_target P a) rendered = Written))"
proof -
  note mc = main_cases [OF assms]
  have none: "status = 1 \<and> files w' = files w" if "\<forall>rendered. \<not> rendered_by P a w rendered"
    using mc that by blast
  show ?thesis
  proof (intro conjI impI allI)
    show "status = 0 \<or> status = 1" using mc by blast
  next
    assume "\<exists>key filename content msg. (key, filename) \<in> set config_files
               \<and> files w (path_join (data_dir P a) filename) = Some content
               \<and> json_load P content = Inl (JSONDecodeError msg)"
    then have "\<forall>c. fst (loaded P a w) \<noteq> Inr c"
      using malformed_json_aborts by blast
    then have "\<forall>rendered. \<not> rendered_by P a w rendered"
      by (auto simp: rendered_by_iff)
    then show "status = 1" "files w' = files w" using none by simp_all
  next
    assume "\<exists>c. fst (loaded P a w) = Inr c \<and> missing_keys c \<noteq> []"
    then have "\<forall>rendered. \<not> rendered_by P a w rendered"
      by (auto simp: rendered_by_iff)
    then show "status = 1" "files w' = files w" using none by simp_all
  next
    assume "\<exists>e. loaded_template P a w = Inl e"
    then have "\<forall>rendered. \<not> rendered_by P a w rendered"
      by (auto simp: rendered_by_iff)
    then show "status = 1" "files w' = files w" using none by simp_all
  next
    assume "\<exists>c tmpl e. fst (loaded P a w) = Inr c \<and> loaded_template P a w = Inr tmpl
               \<and> tmpl c = Inl e"
    then have "\<forall>rendered. \<not> rendered_by P a w rendered"
      by (auto simp: rendered_by_iff)
    then show "status = 1" "files w' = files w" using none by simp_all
  next
    assume "files w' \<noteq> files w"
    then obtain rendered where "rendered_by P a w rendered" using mc by blast
    then show "\<exists>c tmpl rendered. fst (loaded P a w) = Inr c \<and> missing_keys c = []
               \<and> loaded_template P a w = Inr tmpl \<and> tmpl c = Inr rendered"
      unfolding rendered_by_iff by blast
  next
    assume "status = 0"
    then obtain rendered where "rendered_by P a w rendered"
      "files w' = (files w)(output_target P a \<mapsto> rendered)"
      using mc by auto
    then show "\<exists>c tmpl rendered. fst (loaded P a w) = Inr c \<and> missing_keys c = []
               \<and> loaded_template P a w = Inr tmpl \<and> tmpl c = Inr rendered
               \<and> files w' = (files w)(output_target P a \<mapsto> rendered)"
      unfolding rendered_by_iff by blast
  next
    fix c tmpl rendered
    assume "fst (loaded P a w) = Inr c \<and> missing_keys c = []
               \<and> loaded_template P a w = Inr tmpl \<and> tmpl c = Inr rendered"
    then have r: "rendered_by P a w rendered" unfolding rendered_by_iff by blast
    from mc r show "status = 0 \<longleftrightarrow> write_result P (output_target P a) rendered = Written"
      using rendered_by_unique [OF r] by (elim disjE exE conjE) auto
  qed
qed

theorem main_exit_status_witness:
  "fst (main sample_platform sample_args sample_world_bad_json) = 1
   \<and> files (snd (main sample_platform sample_args sample_world_bad_json))
       = files sample_world_bad_json"
proof -
  have m: "main sample_platform sample_args sample_world_bad_json =
     (fst (main sample_platform sample_args sample_world_bad_json),
      snd (main sample_platform sample_args sample_world_bad_json))"
    by simp
  have bad: "\<exists>key filename content msg. (key, filename) \<in> set config_files
      \<and> files sample_world_bad_json (path_join (data_dir sample_platform sample_args) filename)
          = Some content
      \<and> json_load sample_platform content = Inl (JSONDecodeError msg)"
  proof (intro exI conjI)
    show "(''education_data'', ''education.json'') \<in> set config_files"
      by (simp add: config_files_def)
    show "files sample_world_bad_json
            (path_join (data_dir sample_platform sample_args) ''education.json'') = Some ''{''"
      by (simp add: sample_world_bad_json_def sample_world_def data_dir_def sample_args_def
          sample_platform_def path_join_def path_of_string_def)
    show "json_load sample_platform ''{'' = Inl (JSONDecodeError ''Expecting value'')"
      by (simp add: sample_platform_def sample_json_load_def)
  qed
  from main_exit_status [OF m] bad show ?thesis by blast
qed


text \<open>
  A write that fails after the file was opened also gives status 1, and there the output
  file is not what it was: on the full disk the earlier resume is replaced by an empty
  file.
\<close>

lemma main_write_failure_truncates:
  "fst (main sample_platform_disk_full no_args sample_world_old_output) = 1
   \<and> files sample_world_old_output (path_of_string ''/proj/resume.tex'') = Some ''Resume of Bob''
   \<and> files (snd (main sample_platform_disk_full no_args sample_world_old_output))
        (path_of_string ''/proj/resume.tex'') = Some []"
  by code_simp

lemma load_json_file_get_template:
  "load_json_file (P\<lparr>get_template := g\<rparr>) filepath w = load_json_file P filepath w"
  by (simp add: load_json_file_def split: option.splits)

lemma load_configs_get_template:
  "load_configs (P\<lparr>get_template := g\<rparr>) dd cfs c w = load_configs P dd cfs c w"
proof (induction cfs arbitrary: c w)
  case Nil
  show ?case by simp
next
  case (Cons cf cfs)
  obtain key filename where cf: "cf = (key, filename)" by (cases cf)
  show ?case
    unfolding cf load_configs.simps load_json_file_get_template Cons.IH ..
qed

lemma data_dir_get_template: "data_dir (P\<lparr>get_template := g\<rparr>) a = data_dir P a"
  by (cases "data_dir_arg a") (simp_all add: data_dir_def)

lemma loaded_get_template:
  "loaded (P\<lparr>get_template := g\<rparr>) a w = loaded P a w"
  by (simp add: loaded_def load_all_configs_def load_configs_get_template
      data_dir_get_template)

lemma missing_keys_set:
  "set (missing_keys c) =
     {k \<in> set required_keys. map_of c k = None \<or> (\<exists>v. map_of c k = Some v \<and> \<not> truthy v)}"
  by (auto simp: missing_keys_def split: option.splits)

text \<open>
  Claim C4. When the context returned by \<^verbatim>\<open>load_all_configs\<close> (promotions included)
  lacks a required key or holds a falsy value for it, the run prints one message naming
  exactly the keys among \<^verbatim>\<open>profile\<close>, \<^verbatim>\<open>experience\<close>, \<^verbatim>\<open>education\<close> that are absent
  or falsy, changes no file and exits with status 1; the result is the same whatever
  \<^verbatim>\<open>get_template\<close> would do, so the template is neither loaded nor rendered.
\<close>

theorem missing_required_reported:
  assumes "loaded P a w = (Inr c, w1)" and "missing_keys c \<noteq> []"
  shows "main P a w =
           (1, print (''Error: Missing required config data: ''
                      @ py_join '', '' (missing_keys c)) w1)
       \<and> set (missing_keys c) =
           {k \<in> set required_keys.
              map_of c k = None \<or> (\<exists>v. map_of c k = Some v \<and> \<not> truthy v)}
       \<and> files w1 = files w
       \<and> (\<forall>g. main (P\<lparr>get_template := g\<rparr>) a w = main P a w)"
proof (intro conjI allI)
  have run: "main Q a w =
           (1, print (''Error: Missing required config data: ''
                      @ py_join '', '' (missing_keys c)) w1)"
    if "loaded Q a w = (Inr c, w1)" for Q
    using that assms(2)
    by (simp add: main_def render_resume_def loaded_def exit_status_def)
  show "main P a w =
           (1, print (''Error: Missing required config data: ''
                      @ py_join '', '' (missing_keys c)) w1)"
    by (rule run [OF assms(1)])
  show "set (missing_keys c) =
           {k \<in> set required_keys.
              map_of c k = None \<or> (\<exists>v. map_of c k = Some v \<and> \<not> truthy v)}"
    by (rule missing_keys_set)
  show "files w1 = files w"
    using load_all_configs_files [OF assms(1) [unfolded loaded_def]] by simp
  show "main (P\<lparr>get_template := g\<rparr>) a w = main P a w" for g
    using run [of "P\<lparr>get_template := g\<rparr>"] run [OF assms(1)] assms(1)
    by (simp add: loaded_get_template)
qed

theorem missing_required_reported_witness:
  "main sample_platform sample_args sample_world_no_education =
     (1, print ''Error: Missing required config data: education''
           (print ''Loading config files from: /proj/data'' sample_world_no_education))"
proof -
  have l: "loaded sample_platform sample_args sample_world_no_education =
     (Inr [(''profile'', JObj [(''name'', JStr ''Ada'')]),
           (''experience_data'', JObj [(''experience'', JArr [JObj [(''company'', JStr ''Acme'')]])]),
           (''experience'', JArr [JObj [(''company'', JStr ''Acme'')]])],
      print ''Loading config files from: /proj/data'' sample_world_no_education)"
    by (simp add: loaded_def load_all_configs_def config_files_def load_json_file_def
        sample_world_no_education_def sample_world_def sample_platform_def sample_args_def
        sample_json_load_def data_dir_def path_join_def path_of_string_def path_str_def
        print_def flatten_def promote_def and_then_def py_contains_def py_getitem_def)
  have m: "missing_keys
     [(''profile'', JObj [(''name'', JStr ''Ada'')]),
      (''experience_data'', JObj [(''experience'', JArr [JObj [(''company'', JStr ''Acme'')]])]),
      (''experience'', JArr [JObj [(''company'', JStr ''Acme'')]])] = [''education'']"
    by (simp add: missing_keys_def required_keys_def)
  have n: "missing_keys
     [(''profile'', JObj [(''name'', JStr ''Ada'')]),
      (''experience_data'', JObj [(''experience'', JArr [JObj [(''company'', JStr ''Acme'')]])]),
      (''experience'', JArr [JObj [(''company'', JStr ''Acme'')]])] \<noteq> []"
    by (simp add: m)
  from missing_required_reported [OF l n] show ?thesis
    by (simp add: m)
qed

end
